theory Spec2Isabelle
  imports Main "HOL-Library.Word"
begin

section \<open>Paste service: data model\<close>

text \<open>
  Timestamps are milliseconds since the epoch, as \<^verbatim>\<open>Date.now()\<close> gives them. The ISO
  strings that the database and the cache hold are read back with \<^verbatim>\<open>new Date(...)\<close>, so a
  timestamp is modelled by its millisecond value throughout.

  A JavaScript string is a sequence of 16-bit code units. The paste content is modelled that
  way, because the schema bounds \<^verbatim>\<open>content.length\<close> (code units) while the validator bounds
  the UTF-8 byte length. Every other string (language tags, selectors, slugs, keys, messages)
  is only compared with ASCII constants or passed on, and is a HOL string.
\<close>

type_synonym time = int
type_synonym jsstring = "16 word list"

text \<open>
  What a JavaScript \<^verbatim>\<open>throw\<close> carries: a \<^verbatim>\<open>ZodError\<close> with its issues (one field path per
  issue), or a plain \<^verbatim>\<open>Error\<close> with its message.
\<close>

datatype issue_code = InvalidType | TooSmall | TooBig | InvalidEnumValue | InvalidUuid

datatype js_error = ZodError "(string \<times> issue_code) list" | Error string

text \<open>The \<^verbatim>\<open>CachedPaste\<close> interface of the service.\<close>

record cached_paste =
  c_content :: jsstring
  c_language :: string
  c_created_at :: time
  c_expires_at :: "time option"

text \<open>
  A row of table \<^verbatim>\<open>pastes\<close> (columns of docs/ARCHITECTURE.md plus the two columns that
  migration 003 adds). Nullable columns are options.
\<close>

record paste_row =
  r_id :: int
  r_slug :: string
  r_content :: "jsstring option"
  r_storage_path :: "jsstring option"
  r_language :: "string option"
  r_user_id :: "string option"
  r_ip_hash :: "string option"
  r_created_at :: time
  r_expires_at :: "time option"
  r_view_count :: "int option"
  r_last_viewed_at :: "time option"
  r_metadata :: "string option"

text \<open>
  The state the handlers share: the Redis keys that hold integers (the ID counter and the
  rate-limit windows), the Redis keys that hold cached pastes, and the table. A Redis entry
  is a value with an optional expiry time. The two kinds of keys never coincide: the integer
  keys are \<^verbatim>\<open>paste_counter\<close> and \<^verbatim>\<open>rate_limit:...\<close>, the cache keys are \<^verbatim>\<open>paste:...\<close>.
\<close>

record state =
  counters :: "string \<Rightarrow> (int \<times> time option) option"
  cache :: "string \<Rightarrow> (cached_paste \<times> time option) option"
  pastes :: "paste_row list"
  next_id :: int

text \<open>
  What the code takes from libraries and modules that are not part of the repository: the
  encoder and the decoder of the Hashids instance with its secret salt, SHA-256 in
  hexadecimal, the UUID format test of the schema library, and how the Redis client of
  \<^verbatim>\<open>@/lib/redis\<close> hands back a value that was stored as JSON text. They are parameters of the
  model.

  The last one decides whether the cache is ever read. README.md names Upstash Redis; its
  client parses a stored JSON text and returns the object unless it is configured with
  automatic deserialization off, in which case \<^verbatim>\<open>get\<close> returns the string as it was stored.
  The module that constructs the client is not among the sources, so both are possible:
  \<open>get_deserializes\<close> is \<open>True\<close> for a client that returns the parsed object and \<open>False\<close> for
  one that returns the text.
\<close>

record deps =
  hashids_encode :: "int \<Rightarrow> string"
  hashids_decode :: "string \<Rightarrow> int list"
  sha256_hex :: "string \<Rightarrow> string"
  is_uuid :: "string \<Rightarrow> bool"
  get_deserializes :: bool

section \<open>The Redis client\<close>

text \<open>
  Modelled from the spec: the module \<^verbatim>\<open>@/lib/redis\<close> and the server behind it are not among
  the sources. The spec asks for an atomic increment, a window counter with an expiry and a
  cache with a TTL; the operations below are the Redis commands the code calls. A key whose
  expiry time has been reached is absent: every operation reads the store through \<open>live\<close>, so
  an entry that has expired and an entry that was deleted are the same to the callers. Each
  operation takes the error it is going to throw, if any (the backend being unreachable); a
  call that throws changes nothing.
\<close>

definition live :: "(string \<Rightarrow> ('v \<times> time option) option) \<Rightarrow> time \<Rightarrow> string \<Rightarrow> ('v \<times> time option) option" where
  "live m now k =
     (case m k of
        None \<Rightarrow> None
      | Some (v, None) \<Rightarrow> Some (v, None)
      | Some (v, Some t) \<Rightarrow> if t \<le> now then None else Some (v, Some t))"

definition redis_incr :: "string option \<Rightarrow> state \<Rightarrow> time \<Rightarrow> string \<Rightarrow> js_error + (int \<times> state)" where
  "redis_incr fault st now k =
     (case fault of
        Some msg \<Rightarrow> Inl (Error msg)
      | None \<Rightarrow>
          (case live (counters st) now k of
             None \<Rightarrow> Inr (1, st\<lparr>counters := (counters st)(k \<mapsto> (1, None))\<rparr>)
           | Some (n, e) \<Rightarrow> Inr (n + 1, st\<lparr>counters := (counters st)(k \<mapsto> (n + 1, e))\<rparr>)))"

definition redis_expire :: "string option \<Rightarrow> state \<Rightarrow> time \<Rightarrow> string \<Rightarrow> int \<Rightarrow> js_error + state" where
  "redis_expire fault st now k seconds =
     (case fault of
        Some msg \<Rightarrow> Inl (Error msg)
      | None \<Rightarrow>
          (case live (counters st) now k of
             None \<Rightarrow> Inr st
           | Some (n, e) \<Rightarrow>
               Inr (st\<lparr>counters := (counters st)(k \<mapsto> (n, Some (now + seconds * 1000)))\<rparr>)))"

definition redis_ttl :: "string option \<Rightarrow> state \<Rightarrow> time \<Rightarrow> string \<Rightarrow> js_error + int" where
  "redis_ttl fault st now k =
     (case fault of
        Some msg \<Rightarrow> Inl (Error msg)
      | None \<Rightarrow>
          (case live (counters st) now k of
             None \<Rightarrow> Inr (- 2)
           | Some (n, None) \<Rightarrow> Inr (- 1)
           | Some (n, Some t) \<Rightarrow> Inr ((t - now + 500) div 1000)))"

text \<open>
  What \<^verbatim>\<open>redis.get\<close> returns for a cache key. The cache entries are written with
  \<^verbatim>\<open>JSON.stringify\<close>; the state holds the object that was written, and the reply is either the
  JSON text of that object or the object that the client has parsed from it.
\<close>

datatype redis_value = JsonText cached_paste | JsonObject cached_paste

definition redis_get :: "bool \<Rightarrow> string option \<Rightarrow> state \<Rightarrow> time \<Rightarrow> string \<Rightarrow> js_error + redis_value option" where
  "redis_get deserializes fault st now k =
     (case fault of
        Some msg \<Rightarrow> Inl (Error msg)
      | None \<Rightarrow>
          (case live (cache st) now k of
             None \<Rightarrow> Inr None
           | Some (v, e) \<Rightarrow> Inr (Some (if deserializes then JsonObject v else JsonText v))))"

definition redis_set :: "string option \<Rightarrow> state \<Rightarrow> time \<Rightarrow> string \<Rightarrow> cached_paste \<Rightarrow> int \<Rightarrow> js_error + state" where
  "redis_set fault st now k v ex =
     (case fault of
        Some msg \<Rightarrow> Inl (Error msg)
      | None \<Rightarrow> Inr (st\<lparr>cache := (cache st)(k \<mapsto> (v, Some (now + ex * 1000)))\<rparr>))"

section \<open>The rate limiter\<close>

record RateLimitResult =
  rl_success :: bool
  rl_limit :: int
  rl_remaining :: int
  rl_reset :: int

text \<open>The errors that the three Redis calls of one \<^verbatim>\<open>rateLimit\<close> call throw, if any.\<close>

record limiter_faults =
  incr_err :: "string option"
  expire_err :: "string option"
  ttl_err :: "string option"

definition hashIP :: "deps \<Rightarrow> string \<Rightarrow> string" where
  "hashIP d ip = sha256_hex d ip"

definition rate_limit_key :: "deps \<Rightarrow> string \<Rightarrow> string" where
  "rate_limit_key d ip = ''rate_limit:'' @ sha256_hex d ip"

text \<open>
  \<^verbatim>\<open>rateLimit(ip, limit, window)\<close>: the body of the \<^verbatim>\<open>try\<close> in the source's order, every
  throw going to the \<^verbatim>\<open>catch\<close> branch, which keeps what the calls before it have written.
\<close>

definition rateLimit :: "deps \<Rightarrow> limiter_faults \<Rightarrow> state \<Rightarrow> time \<Rightarrow> string \<Rightarrow> int \<Rightarrow> int \<Rightarrow> RateLimitResult \<times> state" where
  "rateLimit d rf st now ip limit window =
     (let key = rate_limit_key d ip;
          failOpen = \<lparr>rl_success = True, rl_limit = limit, rl_remaining = limit,
                      rl_reset = now + window * 1000\<rparr>
      in case redis_incr (incr_err rf) st now key of
           Inl e \<Rightarrow> (failOpen, st)
         | Inr (current, st1) \<Rightarrow>
             (case (if current = 1 then redis_expire (expire_err rf) st1 now key window else Inr st1) of
                Inl e \<Rightarrow> (failOpen, st1)
              | Inr st2 \<Rightarrow>
                  (case redis_ttl (ttl_err rf) st2 now key of
                     Inl e \<Rightarrow> (failOpen, st2)
                   | Inr ttl \<Rightarrow>
                       (\<lparr>rl_success = (current \<le> limit), rl_limit = limit,
                         rl_remaining = max 0 (limit - current),
                         rl_reset = now + ttl * 1000\<rparr>, st2))))"

text \<open>
  The count that \<^verbatim>\<open>redis.incr\<close> returns for a key, and whether some Redis call that
  \<^verbatim>\<open>rateLimit\<close> makes throws: \<^verbatim>\<open>incr\<close> is always called, \<^verbatim>\<open>expire\<close> only when the count is 1, and
  \<^verbatim>\<open>ttl\<close> whenever the calls before it returned.
\<close>

definition count_after_incr :: "state \<Rightarrow> time \<Rightarrow> string \<Rightarrow> int" where
  "count_after_incr st now k = (case live (counters st) now k of None \<Rightarrow> 1 | Some (n, e) \<Rightarrow> n + 1)"

definition backend_raises :: "limiter_faults \<Rightarrow> state \<Rightarrow> time \<Rightarrow> string \<Rightarrow> bool" where
  "backend_raises rf st now k =
     (incr_err rf \<noteq> None
      \<or> (count_after_incr st now k = 1 \<and> expire_err rf \<noteq> None)
      \<or> ttl_err rf \<noteq> None)"

definition no_limiter_faults :: limiter_faults where
  "no_limiter_faults = \<lparr>incr_err = None, expire_err = None, ttl_err = None\<rparr>"


section \<open>Strings\<close>

text \<open>
  \<^verbatim>\<open>new TextEncoder().encode(s).length\<close>: the UTF-8 byte length of a string of UTF-16 code
  units. A code unit below U+0080 takes one byte, below U+0800 two, a surrogate pair four, and
  every other code unit three (a lone surrogate is replaced by U+FFFD, three bytes).
\<close>

definition is_high_surrogate :: "16 word \<Rightarrow> bool" where
  "is_high_surrogate c = (0xD800 \<le> c \<and> c \<le> 0xDBFF)"

definition is_low_surrogate :: "16 word \<Rightarrow> bool" where
  "is_low_surrogate c = (0xDC00 \<le> c \<and> c \<le> 0xDFFF)"

fun utf8_length :: "jsstring \<Rightarrow> nat" where
  "utf8_length [] = 0"
| "utf8_length [c] = (if c < 0x80 then 1 else if c < 0x800 then 2 else 3)"
| "utf8_length (c # c' # cs) =
     (if c < 0x80 then 1 + utf8_length (c' # cs)
      else if c < 0x800 then 2 + utf8_length (c' # cs)
      else if is_high_surrogate c \<and> is_low_surrogate c' then 4 + utf8_length cs
      else 3 + utf8_length (c' # cs))"

text \<open>\<^verbatim>\<open>String.prototype.trim\<close> removes the white space and line terminators of ECMAScript.\<close>

definition is_js_whitespace :: "16 word \<Rightarrow> bool" where
  "is_js_whitespace c =
     (c \<in> set [0x9, 0xA, 0xB, 0xC, 0xD, 0x20, 0xA0, 0x1680, 0x2028, 0x2029, 0x202F, 0x205F,
                0x3000, 0xFEFF]
      \<or> (0x2000 \<le> c \<and> c \<le> 0x200A))"

definition trim :: "jsstring \<Rightarrow> jsstring" where
  "trim s = rev (dropWhile is_js_whitespace (rev (dropWhile is_js_whitespace s)))"

text \<open>\<^verbatim>\<open>haystack.includes(needle)\<close>.\<close>

fun str_includes :: "string \<Rightarrow> string \<Rightarrow> bool" where
  "str_includes [] needle = (needle = [])"
| "str_includes (c # cs) needle = (take (length needle) (c # cs) = needle \<or> str_includes cs needle)"

section \<open>The schema and the validator\<close>

definition CONTENT_SIZE_LIMIT :: nat where
  "CONTENT_SIZE_LIMIT = 100 * 1024"

definition SUPPORTED_LANGUAGES :: "string list" where
  "SUPPORTED_LANGUAGES =
     [''text'', ''javascript'', ''typescript'', ''python'', ''java'', ''go'', ''rust'', ''cpp'',
      ''c'', ''csharp'', ''php'', ''ruby'', ''swift'', ''kotlin'', ''sql'', ''html'', ''css'',
      ''json'', ''yaml'', ''markdown'', ''bash'', ''shell'']"

definition EXPIRATION_OPTIONS :: "string list" where
  "EXPIRATION_OPTIONS = [''1h'', ''1d'', ''7d'', ''never'']"

text \<open>
  A field of the parsed JSON body as the schema sees it: missing, \<^verbatim>\<open>null\<close>, a string, or a
  value of any other type. Keys that the schema does not name are stripped, so the body is
  its four fields; \<open>None\<close> for the whole body is a JSON value that is not an object.
\<close>

datatype 's jsval = JUndefined | JNull | JStr 's | JOther

record raw_body =
  rb_content :: "jsstring jsval"
  rb_language :: "string jsval"
  rb_expiresIn :: "string jsval"
  rb_userId :: "string jsval"

text \<open>\<^verbatim>\<open>CreatePasteInput\<close>, the output type of \<^verbatim>\<open>createPasteSchema\<close>.\<close>

record CreatePasteInput =
  vi_content :: jsstring
  vi_language :: string
  vi_expiresIn :: string
  vi_userId :: "string option"

type_synonym issues = "(string \<times> issue_code) list"

text \<open>
  The schema library is not among the sources; its builders are read as the library
  documents them. \<^verbatim>\<open>content: z.string().min(1, ...).max(CONTENT_SIZE_LIMIT, ...).transform(val => val.trim())\<close>:
  both bounds are on \<^verbatim>\<open>length\<close>, the number of code units, and are checked on the string as
  sent; the transform runs only when there is no issue.
\<close>

definition parse_content :: "jsstring jsval \<Rightarrow> issues + jsstring" where
  "parse_content v =
     (case v of
        JStr s \<Rightarrow>
          (let too_small = (if length s < 1 then [(''content'', TooSmall)] else []);
               too_big = (if length s > CONTENT_SIZE_LIMIT then [(''content'', TooBig)] else [])
           in if too_small @ too_big = [] then Inr (trim s) else Inl (too_small @ too_big))
      | JUndefined \<Rightarrow> Inl [(''content'', InvalidType)]
      | JNull \<Rightarrow> Inl [(''content'', InvalidType)]
      | JOther \<Rightarrow> Inl [(''content'', InvalidType)])"

text \<open>\<^verbatim>\<open>z.enum(values, ...).optional().default(dflt)\<close>.\<close>

definition parse_enum :: "string \<Rightarrow> string list \<Rightarrow> string \<Rightarrow> string jsval \<Rightarrow> issues + string" where
  "parse_enum path values dflt v =
     (case v of
        JUndefined \<Rightarrow> Inr dflt
      | JStr s \<Rightarrow> if s \<in> set values then Inr s else Inl [(path, InvalidEnumValue)]
      | JNull \<Rightarrow> Inl [(path, InvalidType)]
      | JOther \<Rightarrow> Inl [(path, InvalidType)])"

text \<open>\<^verbatim>\<open>userId: z.string().uuid(...).nullable().optional()\<close>.\<close>

definition parse_userId :: "deps \<Rightarrow> string jsval \<Rightarrow> issues + string option" where
  "parse_userId d v =
     (case v of
        JUndefined \<Rightarrow> Inr None
      | JNull \<Rightarrow> Inr None
      | JStr s \<Rightarrow> if is_uuid d s then Inr (Some s) else Inl [(''userId'', InvalidUuid)]
      | JOther \<Rightarrow> Inl [(''userId'', InvalidType)])"

definition issues_of :: "issues + 'a \<Rightarrow> issues" where
  "issues_of r = (case r of Inl iss \<Rightarrow> iss | Inr v \<Rightarrow> [])"

text \<open>
  \<^verbatim>\<open>validateCreatePasteInput(input)\<close>, that is \<^verbatim>\<open>createPasteSchema.parse(input)\<close>: the issues
  of all four fields are collected, and any issue makes the call throw a \<^verbatim>\<open>ZodError\<close>.
\<close>

definition validateCreatePasteInput :: "deps \<Rightarrow> raw_body option \<Rightarrow> js_error + CreatePasteInput" where
  "validateCreatePasteInput d input =
     (case input of
        None \<Rightarrow> Inl (ZodError [([], InvalidType)])
      | Some b \<Rightarrow>
          (let c = parse_content (rb_content b);
               l = parse_enum ''language'' SUPPORTED_LANGUAGES ''text'' (rb_language b);
               e = parse_enum ''expiresIn'' EXPIRATION_OPTIONS ''7d'' (rb_expiresIn b);
               u = parse_userId d (rb_userId b)
           in case (c, l, e, u) of
                (Inr c', Inr l', Inr e', Inr u') \<Rightarrow>
                  Inr \<lparr>vi_content = c', vi_language = l', vi_expiresIn = e', vi_userId = u'\<rparr>
              | _ \<Rightarrow> Inl (ZodError (issues_of c @ issues_of l @ issues_of e @ issues_of u))))"

text \<open>
  \<^verbatim>\<open>validateExpirationRules(userId, expiresIn)\<close>. \<^verbatim>\<open>!userId\<close> holds for \<^verbatim>\<open>undefined\<close>, \<^verbatim>\<open>null\<close>
  and the empty string.
\<close>

definition validateExpirationRules :: "string option \<Rightarrow> string \<Rightarrow> js_error + unit" where
  "validateExpirationRules userId expiresIn =
     (if (userId = None \<or> userId = Some []) \<and> expiresIn = ''never''
      then Inl (Error ''Anonymous users must set an expiration time'')
      else Inr ())"

text \<open>
  \<^verbatim>\<open>calculateExpiration(duration)\<close>, with the clock read passed in. \<^verbatim>\<open>setHours\<close> and \<^verbatim>\<open>setDate\<close>
  work on local time; the model takes the server's time zone to have no clock changes, so
  that an hour is 3,600,000 ms and a day 86,400,000 ms.
\<close>

definition calculateExpiration :: "time \<Rightarrow> string \<Rightarrow> time option" where
  "calculateExpiration now duration =
     (if duration = ''never'' then None
      else if duration = ''1h'' then Some (now + 3600000)
      else if duration = ''1d'' then Some (now + 86400000)
      else if duration = ''7d'' then Some (now + 7 * 86400000)
      else Some (now + 7 * 86400000))"

definition shouldUseObjectStorage :: "jsstring \<Rightarrow> bool" where
  "shouldUseObjectStorage content = (utf8_length content > CONTENT_SIZE_LIMIT)"


section \<open>The data access object and the repository\<close>

text \<open>The domain model \<^verbatim>\<open>Paste\<close>. A field that an object literal leaves out is \<open>Undefined\<close>.\<close>

datatype 'a nullable = Undefined | Null | Defined 'a

record Paste =
  p_id :: int
  p_slug :: string
  p_content :: jsstring
  p_language :: string
  p_userId :: "string option"
  p_createdAt :: time
  p_expiresAt :: "time option"
  p_viewCount :: int
  p_lastViewedAt :: "time nullable"
  p_metadata :: "string nullable"

text \<open>\<^verbatim>\<open>PasteInsert\<close>, with the columns that \<^verbatim>\<open>createPaste\<close> sets.\<close>

record PasteInsert =
  i_slug :: string
  i_content :: jsstring
  i_language :: string
  i_user_id :: "string option"
  i_ip_hash :: string
  i_expires_at :: "time option"
  i_metadata :: "string option"

text \<open>
  Modelled from the spec: the Supabase client \<^verbatim>\<open>@/lib/supabase-server\<close> and the database
  behind it are not among the sources. The table is the one of docs/ARCHITECTURE.md: \<^verbatim>\<open>id\<close> is
  an identity column, \<^verbatim>\<open>slug\<close> is unique, \<^verbatim>\<open>created_at\<close> defaults to \<^verbatim>\<open>now()\<close>, \<^verbatim>\<open>view_count\<close>
  defaults to 0, and the check constraint asks for an owner or an expiry. Each call takes the
  message of the error that the client reports, if any; a call that fails changes nothing.
  \<open>supabase_insert\<close> is \<^verbatim>\<open>supabaseAdmin.from('pastes').insert(data).select().single()\<close>: the
  message of the error, or the row that was inserted.
\<close>

definition supabase_insert :: "string option \<Rightarrow> state \<Rightarrow> time \<Rightarrow> PasteInsert \<Rightarrow> string + (paste_row \<times> state)" where
  "supabase_insert fault st now data =
     (case fault of
        Some msg \<Rightarrow> Inl msg
      | None \<Rightarrow>
          if i_slug data \<in> set (map r_slug (pastes st))
          then Inl ''duplicate key value violates unique constraint''
          else if i_user_id data = None \<and> i_expires_at data = None
          then Inl ''new row violates check constraint check_anonymous_expiration''
          else
            (let row = \<lparr>r_id = next_id st, r_slug = i_slug data, r_content = Some (i_content data),
                         r_storage_path = None, r_language = Some (i_language data),
                         r_user_id = i_user_id data, r_ip_hash = Some (i_ip_hash data),
                         r_created_at = now, r_expires_at = i_expires_at data,
                         r_view_count = Some 0, r_last_viewed_at = None,
                         r_metadata = i_metadata data\<rparr>
             in Inr (row, st\<lparr>pastes := pastes st @ [row], next_id := next_id st + 1\<rparr>)))"

text \<open>\<^verbatim>\<open>PasteDAO.insert\<close>: an error of the client is thrown with the prefix of the method.\<close>

definition dao_insert :: "string option \<Rightarrow> state \<Rightarrow> time \<Rightarrow> PasteInsert \<Rightarrow> js_error + (paste_row \<times> state)" where
  "dao_insert fault st now data =
     (case supabase_insert fault st now data of
        Inl msg \<Rightarrow> Inl (Error (''Failed to insert paste: '' @ msg))
      | Inr inserted \<Rightarrow> Inr inserted)"

text \<open>
  \<^verbatim>\<open>findBySlug\<close>: \<^verbatim>\<open>.eq('slug', slug).single()\<close> reports error PGRST116 unless exactly one row
  matches, and the method turns that error into \<^verbatim>\<open>null\<close>.
\<close>

definition dao_findBySlug :: "string option \<Rightarrow> state \<Rightarrow> string \<Rightarrow> js_error + paste_row option" where
  "dao_findBySlug fault st slug =
     (case fault of
        Some msg \<Rightarrow> Inl (Error (''Failed to find paste: '' @ msg))
      | None \<Rightarrow>
          (case filter (\<lambda>r. r_slug r = slug) (pastes st) of
             [row] \<Rightarrow> Inr (Some row)
           | _ \<Rightarrow> Inr None))"

text \<open>
  The SQL function \<^verbatim>\<open>increment_view_count\<close> of migration 003: one \<^verbatim>\<open>update\<close> of the rows with
  the given id. In SQL, \<^verbatim>\<open>NULL + 1\<close> is \<^verbatim>\<open>NULL\<close>.
\<close>

definition increment_view_count :: "time \<Rightarrow> int \<Rightarrow> paste_row \<Rightarrow> paste_row" where
  "increment_view_count now paste_id r =
     (if r_id r = paste_id
      then r\<lparr>r_view_count := map_option (\<lambda>v. v + 1) (r_view_count r), r_last_viewed_at := Some now\<rparr>
      else r)"

text \<open>
  \<^verbatim>\<open>PasteDAO.incrementViewCount\<close>: an error of the remote call is logged and not thrown. The
  flag says whether the call fails.
\<close>

definition dao_incrementViewCount :: "bool \<Rightarrow> state \<Rightarrow> time \<Rightarrow> int \<Rightarrow> state" where
  "dao_incrementViewCount fails st now paste_id =
     (if fails then st
      else st\<lparr>pastes := map (increment_view_count now paste_id) (pastes st)\<rparr>)"

definition toDomainModel :: "paste_row \<Rightarrow> Paste" where
  "toDomainModel row =
     \<lparr>p_id = r_id row,
      p_slug = r_slug row,
      p_content = (case r_content row of
                     Some c \<Rightarrow> c
                   | None \<Rightarrow> (case r_storage_path row of Some sp \<Rightarrow> sp | None \<Rightarrow> [])),
      p_language = (case r_language row of Some l \<Rightarrow> l | None \<Rightarrow> ''text''),
      p_userId = r_user_id row,
      p_createdAt = r_created_at row,
      p_expiresAt = r_expires_at row,
      p_viewCount = (case r_view_count row of Some v \<Rightarrow> v | None \<Rightarrow> 0),
      p_lastViewedAt = Undefined,
      p_metadata = Undefined\<rparr>"

definition repository_create :: "string option \<Rightarrow> state \<Rightarrow> time \<Rightarrow> PasteInsert \<Rightarrow> js_error + (Paste \<times> state)" where
  "repository_create fault st now data =
     (case dao_insert fault st now data of
        Inl e \<Rightarrow> Inl e
      | Inr (row, st') \<Rightarrow> Inr (toDomainModel row, st'))"

text \<open>\<^verbatim>\<open>PasteRepository.getBySlug\<close>, with its expiry check \<^verbatim>\<open>new Date(row.expires_at) < new Date()\<close>.\<close>

definition getBySlug :: "string option \<Rightarrow> state \<Rightarrow> time \<Rightarrow> string \<Rightarrow> js_error + Paste option" where
  "getBySlug fault st now slug =
     (case dao_findBySlug fault st slug of
        Inl e \<Rightarrow> Inl e
      | Inr None \<Rightarrow> Inr None
      | Inr (Some row) \<Rightarrow>
          (case r_expires_at row of
             Some t \<Rightarrow> if t < now then Inr None else Inr (Some (toDomainModel row))
           | None \<Rightarrow> Inr (Some (toDomainModel row))))"

section \<open>The paste service\<close>

text \<open>
  The errors of the backend calls that one call of the service makes: \<^verbatim>\<open>redis.incr\<close>, the
  insert, \<^verbatim>\<open>redis.set\<close>, \<^verbatim>\<open>redis.get\<close>, the select, and the remote call of the view counter.
\<close>

record service_faults =
  sf_incr :: "string option"
  sf_insert :: "string option"
  sf_set :: "string option"
  sf_get :: "string option"
  sf_find :: "string option"
  sf_rpc :: bool

definition no_service_faults :: service_faults where
  "no_service_faults =
     \<lparr>sf_incr = None, sf_insert = None, sf_set = None, sf_get = None, sf_find = None,
      sf_rpc = False\<rparr>"

definition CACHE_TTL :: int where
  "CACHE_TTL = 3600"

definition cache_key :: "string \<Rightarrow> string" where
  "cache_key slug = ''paste:'' @ slug"

text \<open>
  \<^verbatim>\<open>generateSlug\<close> and \<^verbatim>\<open>decodeSlug\<close> of lib/hashids.ts. \<^verbatim>\<open>hashids.decode\<close> returns an array of
  numbers; \<^verbatim>\<open>decodeSlug\<close> takes its first element, and 0 when the array is empty.
\<close>

definition generateSlug :: "deps \<Rightarrow> int \<Rightarrow> string" where
  "generateSlug d counter = hashids_encode d counter"

definition decodeSlug :: "deps \<Rightarrow> string \<Rightarrow> int" where
  "decodeSlug d slug = (case hashids_decode d slug of [] \<Rightarrow> 0 | n # ns \<Rightarrow> n)"

text \<open>\<^verbatim>\<open>cachePaste\<close>: the \<^verbatim>\<open>catch\<close> logs the error of \<^verbatim>\<open>redis.set\<close> and returns.\<close>

definition cachePaste :: "string option \<Rightarrow> state \<Rightarrow> time \<Rightarrow> string \<Rightarrow> cached_paste \<Rightarrow> state" where
  "cachePaste fault st now slug data =
     (case redis_set fault st now (cache_key slug) data CACHE_TTL of
        Inl e \<Rightarrow> st
      | Inr st' \<Rightarrow> st')"

text \<open>
  \<^verbatim>\<open>getCachedPaste\<close>: an error of \<^verbatim>\<open>redis.get\<close> is logged and is a miss; so is no reply, and so
  is a reply that is not a string (\<^verbatim>\<open>!cached || typeof cached !== 'string'\<close>). A string is read
  with \<^verbatim>\<open>JSON.parse\<close>, which gives back the object that \<^verbatim>\<open>JSON.stringify\<close> was applied to.
\<close>

definition getCachedPaste :: "deps \<Rightarrow> string option \<Rightarrow> state \<Rightarrow> time \<Rightarrow> string \<Rightarrow> cached_paste option" where
  "getCachedPaste d fault st now slug =
     (case redis_get (get_deserializes d) fault st now (cache_key slug) of
        Inl e \<Rightarrow> None
      | Inr None \<Rightarrow> None
      | Inr (Some (JsonObject obj)) \<Rightarrow> None
      | Inr (Some (JsonText cached)) \<Rightarrow> Some cached)"

definition cachedPasteToDomain :: "string \<Rightarrow> cached_paste \<Rightarrow> Paste" where
  "cachedPasteToDomain slug cached =
     \<lparr>p_id = 0,
      p_slug = slug,
      p_content = c_content cached,
      p_language = c_language cached,
      p_userId = None,
      p_createdAt = c_created_at cached,
      p_expiresAt = c_expires_at cached,
      p_viewCount = 0,
      p_lastViewedAt = Null,
      p_metadata = Null\<rparr>"

text \<open>
  \<^verbatim>\<open>PasteService.createPaste(input, ip)\<close>. The result is the paste or the error thrown, with
  the state that the call leaves. The schema has no \<^verbatim>\<open>metadata\<close> field, so the parsed input
  has none and the row gets \<^verbatim>\<open>null\<close>.
\<close>

definition createPaste :: "deps \<Rightarrow> service_faults \<Rightarrow> state \<Rightarrow> time \<Rightarrow> raw_body option \<Rightarrow> string \<Rightarrow> (js_error + Paste) \<times> state" where
  "createPaste d sf st now input ip =
     (case validateCreatePasteInput d input of
        Inl e \<Rightarrow> (Inl e, st)
      | Inr validatedInput \<Rightarrow>
          (case validateExpirationRules (vi_userId validatedInput) (vi_expiresIn validatedInput) of
             Inl e \<Rightarrow> (Inl e, st)
           | Inr u \<Rightarrow>
               if shouldUseObjectStorage (vi_content validatedInput)
               then (Inl (Error ''Content too large. Object storage not yet implemented.''), st)
               else
                 (case redis_incr (sf_incr sf) st now ''paste_counter'' of
                    Inl e \<Rightarrow> (Inl e, st)
                  | Inr (counter, st1) \<Rightarrow>
                      (let slug = generateSlug d counter;
                           expiresAt = calculateExpiration now (vi_expiresIn validatedInput)
                       in case repository_create (sf_insert sf) st1 now
                                 \<lparr>i_slug = slug,
                                  i_content = vi_content validatedInput,
                                  i_language = vi_language validatedInput,
                                  i_user_id = vi_userId validatedInput,
                                  i_ip_hash = hashIP d ip,
                                  i_expires_at = expiresAt,
                                  i_metadata = None\<rparr> of
                            Inl e \<Rightarrow> (Inl e, st1)
                          | Inr (paste, st2) \<Rightarrow>
                              (Inr paste,
                               cachePaste (sf_set sf) st2 now slug
                                 \<lparr>c_content = vi_content validatedInput,
                                  c_language = p_language paste,
                                  c_created_at = p_createdAt paste,
                                  c_expires_at = expiresAt\<rparr>)))))"

text \<open>
  \<^verbatim>\<open>PasteService.getPaste(slug)\<close>. The view-count increment is started and not awaited; the
  model runs it before the call returns.
\<close>

definition getPaste :: "deps \<Rightarrow> service_faults \<Rightarrow> state \<Rightarrow> time \<Rightarrow> string \<Rightarrow> (js_error + Paste option) \<times> state" where
  "getPaste d sf st now slug =
     (case getCachedPaste d (sf_get sf) st now slug of
        Some cached \<Rightarrow> (Inr (Some (cachedPasteToDomain slug cached)), st)
      | None \<Rightarrow>
          (case getBySlug (sf_find sf) st now slug of
             Inl e \<Rightarrow> (Inl e, st)
           | Inr None \<Rightarrow> (Inr None, st)
           | Inr (Some paste) \<Rightarrow>
               (let st1 = cachePaste (sf_set sf) st now slug
                            \<lparr>c_content = p_content paste,
                             c_language = p_language paste,
                             c_created_at = p_createdAt paste,
                             c_expires_at = p_expiresAt paste\<rparr>;
                    st2 = dao_incrementViewCount (sf_rpc sf) st1 now (p_id paste)
                in (Inr (Some paste), st2))))"


section \<open>The route handlers\<close>

text \<open>
  A request to \<^verbatim>\<open>POST /api/pastes\<close>: the two address headers and the body, which is \<open>None\<close>
  when \<^verbatim>\<open>request.json()\<close> throws. The body has the type that the handler gives it: the
  handler that delegates to the service passes it on as \<^verbatim>\<open>unknown\<close>, the stand-alone handler
  declares it a \<^verbatim>\<open>CreatePasteRequest\<close>.
\<close>

record 'b post_request =
  rq_forwardedFor :: "string option"
  rq_realIP :: "string option"
  rq_body :: "'b option"

record post_response =
  ps_status :: nat
  ps_error :: "string option"
  ps_slug :: "string option"

text \<open>\<^verbatim>\<open>forwardedFor?.split(',')[0] ?? realIP ?? '127.0.0.1'\<close>.\<close>

definition client_ip :: "'b post_request \<Rightarrow> string" where
  "client_ip req =
     (case rq_forwardedFor req of
        Some f \<Rightarrow> takeWhile (\<lambda>c. c \<noteq> CHR '','') f
      | None \<Rightarrow> (case rq_realIP req of Some r \<Rightarrow> r | None \<Rightarrow> ''127.0.0.1''))"

text \<open>The \<^verbatim>\<open>catch\<close> block of the handler: the status code for a thrown error.\<close>

definition error_status :: "js_error \<Rightarrow> nat" where
  "error_status e =
     (case e of
        ZodError iss \<Rightarrow> 400
      | Error errorMessage \<Rightarrow>
          if str_includes errorMessage ''too large'' then 413
          else if str_includes errorMessage ''Anonymous users'' then 403
          else if str_includes errorMessage ''required'' \<or> str_includes errorMessage ''Invalid'' then 400
          else 500)"

definition error_text :: "js_error \<Rightarrow> string" where
  "error_text e = (case e of ZodError iss \<Rightarrow> ''Validation failed'' | Error errorMessage \<Rightarrow> errorMessage)"

text \<open>\<^verbatim>\<open>POST\<close>, the handler that delegates to the service.\<close>

definition POST :: "deps \<Rightarrow> limiter_faults \<Rightarrow> service_faults \<Rightarrow> state \<Rightarrow> time \<Rightarrow> raw_body option post_request \<Rightarrow> post_response \<times> state" where
  "POST d rf sf st now req =
     (let ip = client_ip req
      in case rateLimit d rf st now ip 5 60 of
           (rateLimitResult, st1) \<Rightarrow>
             if \<not> rl_success rateLimitResult
             then (\<lparr>ps_status = 429,
                    ps_error = Some ''Rate limit exceeded. Please try again later.'',
                    ps_slug = None\<rparr>, st1)
             else
               (case rq_body req of
                  None \<Rightarrow> (\<lparr>ps_status = 400, ps_error = Some ''Invalid JSON body'', ps_slug = None\<rparr>, st1)
                | Some body \<Rightarrow>
                    (case createPaste d sf st1 now body ip of
                       (Inr paste, st2) \<Rightarrow>
                         (\<lparr>ps_status = 201, ps_error = None, ps_slug = Some (p_slug paste)\<rparr>, st2)
                     | (Inl e, st2) \<Rightarrow>
                         (\<lparr>ps_status = error_status e, ps_error = Some (error_text e),
                           ps_slug = None\<rparr>, st2))))"

text \<open>
  The interface \<^verbatim>\<open>CreatePasteRequest\<close> of the stand-alone handler:
  \<^verbatim>\<open>content: string\<close>, \<^verbatim>\<open>language?: string\<close>, \<^verbatim>\<open>expiresIn?: '1h' | '1d' | '7d' | 'never'\<close>,
  \<^verbatim>\<open>userId?: string | null\<close>. The handler does not check that the body has this type; the model
  covers the bodies that have it, and any string for the selector.
\<close>

record CreatePasteRequest =
  cr_content :: jsstring
  cr_language :: "string option"
  cr_expiresIn :: "string option"
  cr_userId :: "string nullable"

text \<open>
  \<^verbatim>\<open>POST\<close>, the stand-alone handler in the second half of route.ts, which checks the body
  itself and calls Redis and the database directly. Its own \<^verbatim>\<open>CONTENT_SIZE_LIMIT\<close> and
  \<^verbatim>\<open>calculateExpiration\<close> are the same constant and the same code as the validator's. The
  insert selects the columns \<^verbatim>\<open>slug, created_at, expires_at, language\<close> of the new row; that row
  always has a language, since the handler sends one. Everything from step 1 to the response
  sits in one \<^verbatim>\<open>try\<close>: a throw of \<^verbatim>\<open>redis.incr\<close> or of \<^verbatim>\<open>redis.set\<close> reaches the \<^verbatim>\<open>catch\<close>,
  which answers 500.
\<close>

definition POST_standalone :: "deps \<Rightarrow> limiter_faults \<Rightarrow> service_faults \<Rightarrow> state \<Rightarrow> time \<Rightarrow> CreatePasteRequest post_request \<Rightarrow> post_response \<times> state" where
  "POST_standalone d rf sf st now req =
     (let ip = client_ip req;
          unexpected = \<lparr>ps_status = 500,
                         ps_error = Some ''An unexpected error occurred. Please try again.'',
                         ps_slug = None\<rparr>
      in case rateLimit d rf st now ip 5 60 of
           (rateLimitResult, st1) \<Rightarrow>
             if \<not> rl_success rateLimitResult
             then (\<lparr>ps_status = 429,
                    ps_error = Some ''Rate limit exceeded. Please try again later.'',
                    ps_slug = None\<rparr>, st1)
             else
               (case rq_body req of
                  None \<Rightarrow> (\<lparr>ps_status = 400, ps_error = Some ''Invalid JSON body'', ps_slug = None\<rparr>, st1)
                | Some body \<Rightarrow>
                    if cr_content body = [] \<or> length (trim (cr_content body)) = 0
                    then (\<lparr>ps_status = 400, ps_error = Some ''Content cannot be empty'',
                           ps_slug = None\<rparr>, st1)
                    else
                      (let expiresIn = (case cr_expiresIn body of Some e \<Rightarrow> e | None \<Rightarrow> ''7d'')
                       in if (cr_userId body = Undefined \<or> cr_userId body = Null
                              \<or> cr_userId body = Defined []) \<and> expiresIn = ''never''
                          then (\<lparr>ps_status = 403,
                                 ps_error = Some ''Anonymous users must set an expiration time'',
                                 ps_slug = None\<rparr>, st1)
                          else if utf8_length (cr_content body) > CONTENT_SIZE_LIMIT
                          then (\<lparr>ps_status = 413,
                                 ps_error = Some ''Content too large. Maximum size is 100KB.'',
                                 ps_slug = None\<rparr>, st1)
                          else
                            (case redis_incr (sf_incr sf) st1 now ''paste_counter'' of
                               Inl e \<Rightarrow> (unexpected, st1)
                             | Inr (counter, st2) \<Rightarrow>
                                 (let slug = generateSlug d counter;
                                      expiresAt = calculateExpiration now expiresIn
                                  in case supabase_insert (sf_insert sf) st2 now
                                            \<lparr>i_slug = slug,
                                             i_content = cr_content body,
                                             i_language = (case cr_language body of
                                                             Some l \<Rightarrow> l | None \<Rightarrow> ''text''),
                                             i_user_id = (case cr_userId body of
                                                            Defined u \<Rightarrow> Some u
                                                          | Undefined \<Rightarrow> None
                                                          | Null \<Rightarrow> None),
                                             i_ip_hash = hashIP d ip,
                                             i_expires_at = expiresAt,
                                             i_metadata = None\<rparr> of
                                       Inl msg \<Rightarrow>
                                         (\<lparr>ps_status = 500,
                                           ps_error = Some ''Failed to create paste. Please try again.'',
                                           ps_slug = None\<rparr>, st2)
                                     | Inr (row, st3) \<Rightarrow>
                                         (case redis_set (sf_set sf) st3 now (cache_key slug)
                                                 \<lparr>c_content = cr_content body,
                                                  c_language = (case r_language row of
                                                                  Some l \<Rightarrow> l | None \<Rightarrow> []),
                                                  c_created_at = r_created_at row,
                                                  c_expires_at = r_expires_at row\<rparr> 3600 of
                                            Inl e \<Rightarrow> (unexpected, st3)
                                          | Inr st4 \<Rightarrow>
                                              (\<lparr>ps_status = 201, ps_error = None,
                                                ps_slug = Some (r_slug row)\<rparr>, st4)))))))"

text \<open>The \<^verbatim>\<open>data\<close> object of a successful \<^verbatim>\<open>GET /api/pastes/[slug]\<close>.\<close>

record paste_data =
  d_slug :: string
  d_content :: jsstring
  d_language :: string
  d_createdAt :: time
  d_expiresAt :: "time option"
  d_viewCount :: int
  d_lastViewedAt :: "time option"
  d_metadata :: "string nullable"

record get_response =
  gs_status :: nat
  gs_error :: "string option"
  gs_data :: "paste_data option"

definition GET :: "deps \<Rightarrow> service_faults \<Rightarrow> state \<Rightarrow> time \<Rightarrow> string \<Rightarrow> get_response \<times> state" where
  "GET d sf st now slug =
     (if slug = []
      then (\<lparr>gs_status = 400, gs_error = Some ''Invalid slug'', gs_data = None\<rparr>, st)
      else
        (case getPaste d sf st now slug of
           (Inl e, st') \<Rightarrow>
             (\<lparr>gs_status = 500, gs_error = Some ''An unexpected error occurred'', gs_data = None\<rparr>, st')
         | (Inr None, st') \<Rightarrow>
             (\<lparr>gs_status = 404, gs_error = Some ''Paste not found or expired'', gs_data = None\<rparr>, st')
         | (Inr (Some paste), st') \<Rightarrow>
             (\<lparr>gs_status = 200, gs_error = None,
               gs_data = Some \<lparr>d_slug = p_slug paste,
                                d_content = p_content paste,
                                d_language = p_language paste,
                                d_createdAt = p_createdAt paste,
                                d_expiresAt = p_expiresAt paste,
                                d_viewCount = p_viewCount paste,
                                d_lastViewedAt = (case p_lastViewedAt paste of
                                                    Defined t \<Rightarrow> Some t
                                                  | Undefined \<Rightarrow> None
                                                  | Null \<Rightarrow> None),
                                d_metadata = p_metadata paste\<rparr>\<rparr>, st')))"


section \<open>The Hashids package\<close>

text \<open>
  The alphabet and the minimum length that lib/hashids.ts passes to the constructor of the
  package.
\<close>

definition ALPHABET :: string where
  "ALPHABET = ''abcdefghijklmnopqrstuvwxyzABCDEFGHIJKLMNOPQRSTUVWXYZ0123456789''"

definition MIN_LENGTH :: nat where
  "MIN_LENGTH = 6"

text \<open>The digits of a number in base 62, most significant first.\<close>

function digits62 :: "nat \<Rightarrow> nat list" where
  "digits62 n = (if n < 62 then [n] else digits62 (n div 62) @ [n mod 62])"
  by pat_completeness auto
termination
  by (relation "measure (\<lambda>n. n)") auto

text \<open>The position of the first occurrence of an element in a list.\<close>

fun index_of :: "'a list \<Rightarrow> 'a \<Rightarrow> nat" where
  "index_of [] x = 0"
| "index_of (y # ys) x = (if x = y then 0 else Suc (index_of ys x))"

text \<open>
  Modelled from the spec: the Hashids package, whose \<^verbatim>\<open>encode\<close> the function \<^verbatim>\<open>generateSlug\<close>
  calls, is not among the sources. The spec asks for a deterministic, bijective, salted
  mapping from the non-negative integers to alphanumeric strings of a fixed minimum length.
  The model writes the integer in base 62 over a permutation \<open>perm\<close> of the alphabet (the
  permutation is what the salt chooses; it is a parameter) and pads it to the minimum length
  with the digit zero. A negative number has no slug. The model stands for the contract of
  the package, not for its algorithm.
\<close>

definition hashids_model_encode :: "string \<Rightarrow> int \<Rightarrow> string" where
  "hashids_model_encode perm n =
     (if n < 0 then []
      else (let ds = digits62 (nat n)
            in map (\<lambda>d. perm ! d) (replicate (MIN_LENGTH - length ds) 0 @ ds)))"

definition hashids_model_value :: "string \<Rightarrow> string \<Rightarrow> nat" where
  "hashids_model_value perm s = foldl (\<lambda>a c. a * 62 + index_of perm c) 0 s"

text \<open>
  Modelled from the spec: the \<^verbatim>\<open>decode\<close> of the Hashids package, which \<^verbatim>\<open>decodeSlug\<close> calls, is
  not among the sources. The spec asks for a decoder that returns the integer or reports the
  slug invalid. The model reads the digits back and returns the number when the encoder
  produces this very string from it, and the empty array otherwise.
\<close>

definition hashids_model_decode :: "string \<Rightarrow> string \<Rightarrow> int list" where
  "hashids_model_decode perm s =
     (let n = int (hashids_model_value perm s)
      in if s \<noteq> [] \<and> hashids_model_encode perm n = s then [n] else [])"

section \<open>Reading the view count back\<close>


definition stored_viewCount :: "state \<Rightarrow> string \<Rightarrow> int option" where
  "stored_viewCount st slug =
     (case dao_findBySlug None st slug of
        Inr (Some row) \<Rightarrow> r_view_count row
      | Inr None \<Rightarrow> None
      | Inl e \<Rightarrow> None)"


definition store_read :: "deps \<Rightarrow> service_faults \<Rightarrow> state \<Rightarrow> time \<Rightarrow> string \<Rightarrow> bool" where
  "store_read d sf st now slug = (getCachedPaste d (sf_get sf) st now slug = None)"




section \<open>Example inputs\<close>

text \<open>
  Stand-ins for the library functions, used where a theorem is instantiated on concrete data:
  an injective slug encoder with its decoder, the identity for the hash, and a length test
  for the UUID format. \<open>example_deps\<close> has a Redis client that returns the parsed object,
  \<open>text_client_deps\<close> differs from it only in that its client returns the stored text.
\<close>

definition example_deps :: deps where
  "example_deps =
     \<lparr>hashids_encode = (\<lambda>n. replicate (nat n + 5) (CHR ''x'')),
      hashids_decode = (\<lambda>s. [int (length s) - 5]),
      sha256_hex = (\<lambda>s. s),
      is_uuid = (\<lambda>s. length s = 36),
      get_deserializes = True\<rparr>"

definition text_client_deps :: deps where
  "text_client_deps = example_deps\<lparr>get_deserializes := False\<rparr>"

definition empty_state :: state where
  "empty_state = \<lparr>counters = Map.empty, cache = Map.empty, pastes = [], next_id = 1\<rparr>"

text \<open>Request bodies: a two-character Python paste that expires after a day, and variants.\<close>

definition python_body :: raw_body where
  "python_body =
     \<lparr>rb_content = JStr [0x68, 0x69], rb_language = JStr ''python'',
      rb_expiresIn = JStr ''1d'', rb_userId = JUndefined\<rparr>"

definition never_body :: raw_body where
  "never_body =
     \<lparr>rb_content = JStr [0x68, 0x69], rb_language = JUndefined,
      rb_expiresIn = JStr ''never'', rb_userId = JUndefined\<rparr>"

definition empty_never_body :: raw_body where
  "empty_never_body =
     \<lparr>rb_content = JStr [], rb_language = JUndefined,
      rb_expiresIn = JStr ''never'', rb_userId = JUndefined\<rparr>"

definition bad_language_body :: raw_body where
  "bad_language_body =
     \<lparr>rb_content = JStr [0x68, 0x69], rb_language = JStr ''not-a-real-language'',
      rb_expiresIn = JUndefined, rb_userId = JUndefined\<rparr>"

text \<open>102,401 times the letter a (102,401 bytes), and 40,000 times U+4E2D (120,000 bytes).\<close>

definition ascii_102401 :: raw_body where
  "ascii_102401 =
     \<lparr>rb_content = JStr (replicate 102401 0x61), rb_language = JUndefined,
      rb_expiresIn = JUndefined, rb_userId = JUndefined\<rparr>"

definition cjk_40000 :: raw_body where
  "cjk_40000 =
     \<lparr>rb_content = JStr (replicate 40000 0x4E2D), rb_language = JUndefined,
      rb_expiresIn = JUndefined, rb_userId = JUndefined\<rparr>"

definition python_input :: CreatePasteInput where
  "python_input =
     \<lparr>vi_content = [0x68, 0x69], vi_language = ''python'', vi_expiresIn = ''1d'',
      vi_userId = None\<rparr>"

text \<open>
  The paste that \<^verbatim>\<open>createPaste\<close> returns for \<open>python_body\<close> at time 0 on the empty state, what
  the cache holds for it, and what a cache hit returns for it.
\<close>

definition python_paste :: Paste where
  "python_paste =
     \<lparr>p_id = 1, p_slug = ''xxxxxx'', p_content = [0x68, 0x69], p_language = ''python'',
      p_userId = None, p_createdAt = 0, p_expiresAt = Some 86400000, p_viewCount = 0,
      p_lastViewedAt = Undefined, p_metadata = Undefined\<rparr>"

definition python_cached :: cached_paste where
  "python_cached =
     \<lparr>c_content = [0x68, 0x69], c_language = ''python'', c_created_at = 0,
      c_expires_at = Some 86400000\<rparr>"

definition python_from_cache :: Paste where
  "python_from_cache =
     \<lparr>p_id = 0, p_slug = ''xxxxxx'', p_content = [0x68, 0x69], p_language = ''python'',
      p_userId = None, p_createdAt = 0, p_expiresAt = Some 86400000, p_viewCount = 0,
      p_lastViewedAt = Null, p_metadata = Null\<rparr>"

text \<open>
  The states of that paste's life: after the counter was incremented; after the insert, with
  no cache entry; after the whole create at time 0; and after a read at time 86,000,000, which
  misses the cache, finds the row, caches it again and counts the view.
\<close>

definition state_counted :: state where
  "state_counted =
     \<lparr>counters = [''paste_counter'' \<mapsto> (1, None)], cache = Map.empty, pastes = [],
      next_id = 1\<rparr>"

definition python_row :: paste_row where
  "python_row =
     \<lparr>r_id = 1, r_slug = ''xxxxxx'', r_content = Some [0x68, 0x69], r_storage_path = None,
      r_language = Some ''python'', r_user_id = None, r_ip_hash = Some ''10.0.0.1'',
      r_created_at = 0, r_expires_at = Some 86400000, r_view_count = Some 0,
      r_last_viewed_at = None, r_metadata = None\<rparr>"

definition state_uncached :: state where
  "state_uncached =
     \<lparr>counters = [''paste_counter'' \<mapsto> (1, None)], cache = Map.empty,
      pastes = [python_row], next_id = 2\<rparr>"

definition state_created :: state where
  "state_created =
     \<lparr>counters = [''paste_counter'' \<mapsto> (1, None)],
      cache = [''paste:xxxxxx'' \<mapsto> (python_cached, Some 3600000)],
      pastes = [python_row], next_id = 2\<rparr>"

definition state_read :: state where
  "state_read =
     \<lparr>counters = [''paste_counter'' \<mapsto> (1, None)],
      cache = [''paste:xxxxxx'' \<mapsto> (python_cached, Some 89600000)],
      pastes = [python_row\<lparr>r_view_count := Some 1, r_last_viewed_at := Some 86000000\<rparr>],
      next_id = 2\<rparr>"

text \<open>Library functions whose slug encoder is the model of the package.\<close>

definition slug_example_deps :: deps where
  "slug_example_deps =
     \<lparr>hashids_encode = hashids_model_encode (rotate 7 ALPHABET),
      hashids_decode = hashids_model_decode (rotate 7 ALPHABET),
      sha256_hex = (\<lambda>s. s),
      is_uuid = (\<lambda>s. length s = 36),
      get_deserializes = True\<rparr>"

text \<open>
  The example paste in the table with view count \<open>n\<close> and last view \<open>lv\<close>, and in the cache
  with an entry written at time \<open>t\<close>.
\<close>

definition state_viewed :: "time \<Rightarrow> int \<Rightarrow> time option \<Rightarrow> state" where
  "state_viewed t n lv =
     \<lparr>counters = [''paste_counter'' \<mapsto> (1, None)],
      cache = [''paste:xxxxxx'' \<mapsto> (python_cached, Some (t + 3600000))],
      pastes = [python_row\<lparr>r_view_count := Some n, r_last_viewed_at := lv\<rparr>],
      next_id = 2\<rparr>"

text \<open>
  The same two bodies as the stand-alone handler types them, and the state that handler
  leaves when the first request of client 127.0.0.1 inserts the example paste at time 0 and
  writes no cache entry.
\<close>

definition python_request :: CreatePasteRequest where
  "python_request =
     \<lparr>cr_content = [0x68, 0x69], cr_language = Some ''python'', cr_expiresIn = Some ''1d'',
      cr_userId = Undefined\<rparr>"

definition ascii_102401_request :: CreatePasteRequest where
  "ascii_102401_request =
     \<lparr>cr_content = replicate 102401 0x61, cr_language = None, cr_expiresIn = None,
      cr_userId = Undefined\<rparr>"

definition state_standalone_inserted :: state where
  "state_standalone_inserted =
     \<lparr>counters = [''rate_limit:127.0.0.1'' \<mapsto> (1, Some 60000),
                   ''paste_counter'' \<mapsto> (1, None)],
      cache = Map.empty,
      pastes = [python_row\<lparr>r_ip_hash := Some ''127.0.0.1''\<rparr>],
      next_id = 2\<rparr>"

text \<open>
  Two clients in the middle of their windows: 10.0.0.1 has made five requests in a window
  that ends at 61,000, and 10.0.0.2 two in a window that ends at 30,000.
\<close>

definition state_two_clients :: state where
  "state_two_clients =
     \<lparr>counters = [''rate_limit:10.0.0.1'' \<mapsto> (5, Some 61000),
                   ''rate_limit:10.0.0.2'' \<mapsto> (2, Some 30000)],
      cache = Map.empty, pastes = [], next_id = 1\<rparr>"

section \<open>Facts about the Redis operations\<close>

lemma redis_incr_fault [simp]: "redis_incr (Some msg) st now k = Inl (Error msg)"
  by (simp add: redis_incr_def)

lemma redis_incr_ok:
  "redis_incr None st now k =
     Inr (count_after_incr st now k,
          st\<lparr>counters := (counters st)(k \<mapsto> (count_after_incr st now k,
                 case live (counters st) now k of None \<Rightarrow> None | Some (n, e) \<Rightarrow> e))\<rparr>)"
  by (simp add: redis_incr_def count_after_incr_def split: option.splits prod.splits)

lemma live_Some_later: "live m now k = Some (v, Some t) \<Longrightarrow> now < t"
  by (auto simp: live_def split: option.splits if_splits)

lemma redis_expire_after_incr:
  "redis_expire None
     (st\<lparr>counters := (counters st)(k \<mapsto> (c,
            case live (counters st) now k of None \<Rightarrow> None | Some (n, e) \<Rightarrow> e))\<rparr>)
     now k window =
   Inr (st\<lparr>counters := (counters st)(k \<mapsto> (c, Some (now + window * 1000)))\<rparr>)"
  by (auto simp: redis_expire_def live_def split: option.splits dest: live_Some_later)

lemma redis_ttl_after_incr:
  "\<exists>ttl. redis_ttl None
           (st\<lparr>counters := (counters st)(k \<mapsto> (c,
                  case live (counters st) now k of None \<Rightarrow> None | Some (n, e) \<Rightarrow> e))\<rparr>)
           now k = Inr ttl"
  by (auto simp: redis_ttl_def split: option.splits)

lemma redis_ttl_after_expire:
  "\<exists>ttl. redis_ttl None
           (st\<lparr>counters := (counters st)(k \<mapsto> (c, Some (now + window * 1000)))\<rparr>) now k = Inr ttl"
  by (auto simp: redis_ttl_def split: option.splits)

section \<open>Facts about strings\<close>

lemma length_le_utf8_length: "length s \<le> utf8_length s"
proof (induction s rule: utf8_length.induct)
  case 1
  show ?case by simp
next
  case (2 c)
  show ?case by simp
next
  case (3 c c' cs)
  then show ?case by auto
qed

lemma utf8_length_replicate_ascii: "c < 0x80 \<Longrightarrow> utf8_length (replicate n c) = n"
proof (induction n)
  case 0
  show ?case by simp
next
  case (Suc n)
  then show ?case by (cases n) simp_all
qed

lemma utf8_length_replicate_three:
  "\<not> c < 0x80 \<Longrightarrow> \<not> c < 0x800 \<Longrightarrow> \<not> is_high_surrogate c \<Longrightarrow>
   utf8_length (replicate n c) = 3 * n"
proof (induction n)
  case 0
  show ?case by simp
next
  case (Suc n)
  then show ?case by (cases n) simp_all
qed

lemma trim_replicate:
  assumes "\<not> is_js_whitespace c"
  shows "trim (replicate n c) = replicate n c"
proof -
  have "dropWhile is_js_whitespace (replicate n c) = replicate n c"
    using assms by (cases n) simp_all
  then show ?thesis by (simp add: trim_def)
qed

section \<open>Facts about the model of the Hashids package\<close>

declare digits62.simps [simp del]

lemma digits62_lt: "d \<in> set (digits62 n) \<Longrightarrow> d < 62"
proof (induction n arbitrary: d rule: digits62.induct)
  case (1 n)
  show ?case
  proof (cases "n < 62")
    case True
    with "1.prems" show ?thesis by (simp add: digits62.simps [of n])
  next
    case False
    with "1.prems" have "d \<in> set (digits62 (n div 62)) \<or> d = n mod 62"
      by (auto simp: digits62.simps [of n])
    then show ?thesis
    proof
      assume "d \<in> set (digits62 (n div 62))"
      with False "1.IH" show ?thesis by simp
    next
      assume "d = n mod 62"
      then show ?thesis by simp
    qed
  qed
qed

lemma digits62_value: "foldl (\<lambda>a d. a * 62 + d) 0 (digits62 n) = n"
proof (induction n rule: digits62.induct)
  case (1 n)
  show ?case
  proof (cases "n < 62")
    case True
    then show ?thesis by (simp add: digits62.simps [of n])
  next
    case False
    with "1.IH" have "foldl (\<lambda>a d. a * 62 + d) 0 (digits62 (n div 62)) = n div 62" by simp
    with False show ?thesis by (simp add: digits62.simps [of n])
  qed
qed

lemma leading_zeros: "foldl (\<lambda>a d. a * 62 + d) 0 (replicate k 0 @ ds) = foldl (\<lambda>a d. a * 62 + d) (0::nat) ds"
  by (induction k) simp_all

lemma index_of_nth: "distinct xs \<Longrightarrow> i < length xs \<Longrightarrow> index_of xs (xs ! i) = i"
proof (induction xs arbitrary: i)
  case Nil
  then show ?case by simp
next
  case (Cons y ys)
  show ?case
  proof (cases i)
    case 0
    then show ?thesis by simp
  next
    case (Suc j)
    with Cons.prems have "j < length ys" "ys ! j \<in> set ys" "y \<notin> set ys" "distinct ys" by auto
    then have "ys ! j \<noteq> y" "index_of ys (ys ! j) = j" using Cons.IH by auto
    with Suc show ?thesis by simp
  qed
qed

lemma value_of_digits:
  assumes "distinct perm" and "\<forall>d\<in>set ds. d < length perm"
  shows "foldl (\<lambda>a c. a * 62 + index_of perm c) a (map (\<lambda>d. perm ! d) ds) =
         foldl (\<lambda>a d. a * 62 + d) a ds"
  using assms(2)
proof (induction ds arbitrary: a)
  case Nil
  show ?case by simp
next
  case (Cons d ds)
  then have "index_of perm (perm ! d) = d" using assms(1) by (simp add: index_of_nth)
  with Cons show ?case by simp
qed

lemma ALPHABET_facts: "distinct ALPHABET" "length ALPHABET = 62"
  by (simp_all add: ALPHABET_def)

lemma perm_length:
  assumes "distinct perm" and "set perm = set ALPHABET"
  shows "length perm = 62"
proof -
  have "length perm = card (set perm)" using assms(1) by (simp add: distinct_card)
  also have "\<dots> = card (set ALPHABET)" using assms(2) by simp
  also have "\<dots> = length ALPHABET" using ALPHABET_facts(1) by (simp add: distinct_card)
  finally show ?thesis by (simp add: ALPHABET_facts(2))
qed

lemma hashids_model_value_encode:
  assumes "distinct perm" and "set perm = set ALPHABET" and "0 \<le> n"
  shows "hashids_model_value perm (hashids_model_encode perm n) = nat n"
proof -
  let ?ds = "replicate (MIN_LENGTH - length (digits62 (nat n))) 0 @ digits62 (nat n)"
  have len: "length perm = 62" using assms(1,2) by (rule perm_length)
  have "\<forall>d\<in>set ?ds. d < length perm"
    using digits62_lt by (auto simp: len)
  with assms(1) have "hashids_model_value perm (map (\<lambda>d. perm ! d) ?ds) = foldl (\<lambda>a d. a * 62 + d) 0 ?ds"
    unfolding hashids_model_value_def by (rule value_of_digits)
  also have "\<dots> = nat n" by (simp only: leading_zeros digits62_value)
  finally show ?thesis using assms(3) by (simp add: hashids_model_encode_def Let_def)
qed

lemma hashids_model_encode_length: "0 \<le> n \<Longrightarrow> MIN_LENGTH \<le> length (hashids_model_encode perm n)"
  by (simp add: hashids_model_encode_def Let_def)

lemma hashids_model_encode_chars:
  assumes "distinct perm" and "set perm = set ALPHABET" and "0 \<le> n"
  shows "set (hashids_model_encode perm n) \<subseteq> set ALPHABET"
proof -
  have len: "length perm = 62" using assms(1,2) by (rule perm_length)
  have "\<And>d. d \<in> set (digits62 (nat n)) \<Longrightarrow> perm ! d \<in> set perm"
    using digits62_lt by (simp add: len)
  moreover have "perm ! 0 \<in> set perm" by (simp add: len)
  ultimately have "set (hashids_model_encode perm n) \<subseteq> set perm"
    using assms(3) by (auto simp: hashids_model_encode_def Let_def)
  with assms(2) show ?thesis by simp
qed

lemma hashids_model_decode_encode:
  assumes "distinct perm" and "set perm = set ALPHABET" and "0 \<le> n"
  shows "hashids_model_decode perm (hashids_model_encode perm n) = [n]"
proof -
  have "hashids_model_encode perm n \<noteq> []"
    using hashids_model_encode_length [OF assms(3), of perm] by (auto simp: MIN_LENGTH_def)
  moreover have "int (hashids_model_value perm (hashids_model_encode perm n)) = n"
    using hashids_model_value_encode [OF assms] assms(3) by simp
  ultimately show ?thesis by (simp add: hashids_model_decode_def Let_def)
qed

section \<open>Facts about the table\<close>



lemma increment_keeps_slug [simp]: "r_slug (increment_view_count now i r) = r_slug r"
  by (simp add: increment_view_count_def)







section \<open>Facts about the service\<close>

lemma pastes_cachePaste [simp]: "pastes (cachePaste f st now slug data) = pastes st"
  by (simp add: cachePaste_def redis_set_def split: option.splits)

lemma getPaste_cache_hit:
  "getCachedPaste d (sf_get sf) st now slug = Some cached \<Longrightarrow>
   getPaste d sf st now slug = (Inr (Some (cachedPasteToDomain slug cached)), st)"
  by (simp add: getPaste_def)

lemma cache_hit_needs_text:
  "getCachedPaste d f st now slug = Some cached \<Longrightarrow> \<not> get_deserializes d"
  by (auto simp: getCachedPaste_def redis_get_def split: option.splits if_splits)

lemma parsing_client_misses: "get_deserializes d \<Longrightarrow> getCachedPaste d f st now slug = None"
  using cache_hit_needs_text by (cases "getCachedPaste d f st now slug") auto







lemma store_read_not_expired:
  assumes "store_read d sf st now slug"
    and "getPaste d sf st now slug = (Inr (Some paste), st')"
    and "p_expiresAt paste = Some t"
  shows "now \<le> t"
proof -
  from assms(1) have miss: "getCachedPaste d (sf_get sf) st now slug = None"
    by (simp add: store_read_def)
  from assms(2) miss have found: "getBySlug (sf_find sf) st now slug = Inr (Some paste)"
    by (auto simp: getPaste_def Let_def split: sum.splits option.splits)
  then obtain row where row: "dao_findBySlug (sf_find sf) st slug = Inr (Some row)"
    and paste: "paste = toDomainModel row"
    by (auto simp: getBySlug_def split: sum.splits option.splits if_splits)
  from paste assms(3) have "r_expires_at row = Some t" by (simp add: toDomainModel_def)
  with found row show ?thesis by (auto simp: getBySlug_def split: if_splits)
qed









lemma parse_content_too_big:
  "CONTENT_SIZE_LIMIT < length s \<Longrightarrow> parse_content (JStr s) = Inl [(''content'', TooBig)]"
  by (auto simp: parse_content_def Let_def CONTENT_SIZE_LIMIT_def)

lemma validate_too_big:
  assumes "rb_content b = JStr s" and "CONTENT_SIZE_LIMIT < length s"
  shows "\<exists>iss. validateCreatePasteInput d (Some b) = Inl (ZodError ((''content'', TooBig) # iss))"
  using assms
  by (simp add: validateCreatePasteInput_def Let_def parse_content_too_big issues_of_def
      split: sum.splits)

section \<open>The example inputs evaluated\<close>

lemma example_deps_simps [simp]:
  "sha256_hex example_deps s = s"
  "is_uuid example_deps s = (length s = 36)"
  "get_deserializes example_deps = True"
  by (simp_all add: example_deps_def)

lemma text_client_deps_simps [simp]:
  "sha256_hex text_client_deps s = s"
  "is_uuid text_client_deps s = (length s = 36)"
  "get_deserializes text_client_deps = False"
  "hashids_encode text_client_deps = hashids_encode example_deps"
  by (simp_all add: text_client_deps_def)

lemma first_slug: "hashids_encode example_deps 1 = ''xxxxxx''"
  by (simp add: example_deps_def numeral_eq_Suc)

lemma trim_hi: "trim [0x68, 0x69 :: 16 word] = [0x68, 0x69]"
  by (simp add: trim_def is_js_whitespace_def)

lemma validate_python:
  "validateCreatePasteInput example_deps (Some python_body) = Inr python_input"
  by (simp add: validateCreatePasteInput_def python_body_def python_input_def parse_content_def
        parse_enum_def parse_userId_def SUPPORTED_LANGUAGES_def EXPIRATION_OPTIONS_def
        CONTENT_SIZE_LIMIT_def trim_hi)

lemma validate_never:
  "validateCreatePasteInput example_deps (Some never_body) =
     Inr \<lparr>vi_content = [0x68, 0x69], vi_language = ''text'', vi_expiresIn = ''never'',
          vi_userId = None\<rparr>"
  by (simp add: validateCreatePasteInput_def never_body_def parse_content_def parse_enum_def
        parse_userId_def EXPIRATION_OPTIONS_def CONTENT_SIZE_LIMIT_def trim_hi)

lemma validate_empty_never:
  "validateCreatePasteInput example_deps (Some empty_never_body) =
     Inl (ZodError [(''content'', TooSmall)])"
  by (simp add: validateCreatePasteInput_def empty_never_body_def parse_content_def
        parse_enum_def parse_userId_def EXPIRATION_OPTIONS_def CONTENT_SIZE_LIMIT_def
        issues_of_def)

lemma validate_bad_language:
  "validateCreatePasteInput example_deps (Some bad_language_body) =
     Inl (ZodError [(''language'', InvalidEnumValue)])"
  by (simp add: validateCreatePasteInput_def bad_language_body_def parse_content_def
        parse_enum_def parse_userId_def SUPPORTED_LANGUAGES_def CONTENT_SIZE_LIMIT_def trim_hi
        issues_of_def)

lemma validate_ascii_102401:
  "validateCreatePasteInput example_deps (Some ascii_102401) =
     Inl (ZodError [(''content'', TooBig)])"
  by (simp add: validateCreatePasteInput_def ascii_102401_def parse_content_too_big
        CONTENT_SIZE_LIMIT_def parse_enum_def parse_userId_def issues_of_def)

lemma validate_cjk:
  "validateCreatePasteInput example_deps (Some cjk_40000) =
     Inr \<lparr>vi_content = replicate 40000 0x4E2D, vi_language = ''text'', vi_expiresIn = ''7d'',
          vi_userId = None\<rparr>"
proof -
  have "\<not> is_js_whitespace (0x4E2D :: 16 word)"
    by (simp add: is_js_whitespace_def)
  then show ?thesis
    by (simp add: validateCreatePasteInput_def cjk_40000_def parse_content_def parse_enum_def
          parse_userId_def CONTENT_SIZE_LIMIT_def trim_replicate)
qed

lemma incr_on_empty:
  "redis_incr None empty_state 0 ''paste_counter'' = Inr (1, state_counted)"
  by (simp add: redis_incr_ok count_after_incr_def live_def empty_state_def state_counted_def)

lemma insert_python:
  "repository_create None state_counted 0
     \<lparr>i_slug = generateSlug example_deps 1, i_content = vi_content python_input,
      i_language = vi_language python_input, i_user_id = vi_userId python_input,
      i_ip_hash = hashIP example_deps ''10.0.0.1'',
      i_expires_at = calculateExpiration 0 (vi_expiresIn python_input), i_metadata = None\<rparr>
   = Inr (python_paste, state_uncached)"
  by (simp add: repository_create_def dao_insert_def supabase_insert_def state_counted_def
        generateSlug_def first_slug hashIP_def calculateExpiration_def toDomainModel_def
        state_uncached_def python_input_def python_paste_def python_row_def Let_def)

lemma python_passes_rules:
  "validateExpirationRules (vi_userId python_input) (vi_expiresIn python_input) = Inr ()"
  "\<not> shouldUseObjectStorage (vi_content python_input)"
  by (simp_all add: validateExpirationRules_def shouldUseObjectStorage_def python_input_def
        CONTENT_SIZE_LIMIT_def)

lemma create_python:
  "createPaste example_deps no_service_faults empty_state 0 (Some python_body) ''10.0.0.1'' =
     (Inr python_paste, state_created)"
proof -
  have "cachePaste None state_uncached 0 ''xxxxxx''
          \<lparr>c_content = vi_content python_input, c_language = p_language python_paste,
           c_created_at = p_createdAt python_paste,
           c_expires_at = calculateExpiration 0 (vi_expiresIn python_input)\<rparr> = state_created"
    by (simp add: cachePaste_def redis_set_def cache_key_def CACHE_TTL_def state_uncached_def
          state_created_def python_input_def python_paste_def python_cached_def
          calculateExpiration_def)
  then show ?thesis
    using insert_python
    by (simp add: createPaste_def validate_python python_passes_rules no_service_faults_def
          incr_on_empty Let_def generateSlug_def first_slug)
qed

lemma createPaste_any_client:
  "createPaste text_client_deps sf st now input ip = createPaste example_deps sf st now input ip"
proof -
  have "parse_userId text_client_deps = parse_userId example_deps"
    by (simp add: fun_eq_iff parse_userId_def split: jsval.splits)
  then have validate: "validateCreatePasteInput text_client_deps = validateCreatePasteInput example_deps"
    by (simp add: fun_eq_iff validateCreatePasteInput_def split: option.splits)
  have slug: "generateSlug text_client_deps = generateSlug example_deps"
    by (simp add: fun_eq_iff generateSlug_def)
  have hash: "hashIP text_client_deps = hashIP example_deps"
    by (simp add: fun_eq_iff hashIP_def)
  show ?thesis
    unfolding createPaste_def validate slug hash ..
qed

lemma states_viewed:
  "state_created = state_viewed 0 0 None"
  "state_read = state_viewed 86000000 1 (Some 86000000)"
  by (simp_all add: state_created_def state_read_def state_viewed_def python_row_def)

text \<open>A read that the cache of the text-returning client answers.\<close>

lemma read_from_cache:
  assumes "now < t + 3600000"
  shows "getPaste text_client_deps no_service_faults (state_viewed t n lv) now ''xxxxxx'' =
           (Inr (Some python_from_cache), state_viewed t n lv)"
  using assms
  by (simp add: getPaste_def getCachedPaste_def redis_get_def live_def no_service_faults_def
        state_viewed_def cache_key_def cachedPasteToDomain_def python_cached_def
        python_from_cache_def)

text \<open>
  A read of the example paste that reaches the store before the paste expires: with the
  client that returns parsed objects at any time, with the other client once the cache entry
  has lapsed.
\<close>

lemma read_from_store:
  assumes "get_deserializes d \<or> t + 3600000 \<le> now" and "now \<le> 86400000"
    and "sf_get sf = None" and "sf_find sf = None" and "sf_set sf = None"
  shows "getPaste d sf (state_viewed t n lv) now ''xxxxxx'' =
           (Inr (Some (python_paste\<lparr>p_viewCount := n\<rparr>)),
            state_viewed now (if sf_rpc sf then n else n + 1) (if sf_rpc sf then lv else Some now))"
proof -
  from assms(1,3) have miss: "getCachedPaste d (sf_get sf) (state_viewed t n lv) now ''xxxxxx'' = None"
    by (auto simp: getCachedPaste_def redis_get_def live_def state_viewed_def cache_key_def)
  from assms(2,4) have found:
    "getBySlug (sf_find sf) (state_viewed t n lv) now ''xxxxxx'' =
       Inr (Some (python_paste\<lparr>p_viewCount := n\<rparr>))"
    by (simp add: getBySlug_def dao_findBySlug_def state_viewed_def python_row_def
          toDomainModel_def python_paste_def)
  show ?thesis
    using assms(5)
    by (simp add: getPaste_def miss found Let_def)
       (simp add: cachePaste_def redis_set_def CACHE_TTL_def cache_key_def
          dao_incrementViewCount_def increment_view_count_def state_viewed_def python_row_def
          python_paste_def python_cached_def)
qed

lemma read_expired_from_store:
  assumes "get_deserializes d \<or> t + 3600000 \<le> now" and "86400000 < now"
  shows "getPaste d no_service_faults (state_viewed t n lv) now ''xxxxxx'' =
           (Inr None, state_viewed t n lv)"
proof -
  from assms(1) have miss:
    "getCachedPaste d (sf_get no_service_faults) (state_viewed t n lv) now ''xxxxxx'' = None"
    by (auto simp: getCachedPaste_def redis_get_def live_def state_viewed_def cache_key_def
          no_service_faults_def)
  from assms(2) have gone:
    "getBySlug (sf_find no_service_faults) (state_viewed t n lv) now ''xxxxxx'' = Inr None"
    by (simp add: getBySlug_def dao_findBySlug_def state_viewed_def python_row_def
          no_service_faults_def)
  show ?thesis by (simp add: getPaste_def miss gone)
qed

lemma stored_viewed: "stored_viewCount (state_viewed t n lv) ''xxxxxx'' = Some n"
  by (simp add: stored_viewCount_def dao_findBySlug_def state_viewed_def python_row_def)


lemma stored_after_read: "stored_viewCount state_read ''xxxxxx'' = Some 1"
  by (simp add: states_viewed stored_viewed)

lemma limiter_allows_first:
  "rateLimit example_deps no_limiter_faults empty_state 0 ''127.0.0.1'' 5 60 =
     (\<lparr>rl_success = True, rl_limit = 5, rl_remaining = 4, rl_reset = 60000\<rparr>,
      empty_state\<lparr>counters := [''rate_limit:127.0.0.1'' \<mapsto> (1, Some 60000)]\<rparr>)"
  by (simp add: rateLimit_def no_limiter_faults_def redis_incr_ok count_after_incr_def live_def
        empty_state_def redis_expire_def redis_ttl_def Let_def rate_limit_key_def)

section \<open>Facts about the handlers\<close>

lemma createPaste_invalid:
  "validateCreatePasteInput d input = Inl e \<Longrightarrow> createPaste d sf st now input ip = (Inl e, st)"
  by (simp add: createPaste_def)

lemma createPaste_against_rules:
  "validateCreatePasteInput d input = Inr v \<Longrightarrow>
   validateExpirationRules (vi_userId v) (vi_expiresIn v) = Inl e \<Longrightarrow>
   createPaste d sf st now input ip = (Inl e, st)"
  by (simp add: createPaste_def)

lemma POST_first_request:
  "ps_status (fst (POST example_deps no_limiter_faults sf empty_state 0
      \<lparr>rq_forwardedFor = None, rq_realIP = None, rq_body = Some input\<rparr>)) =
   (case fst (createPaste example_deps sf
                (empty_state\<lparr>counters := [''rate_limit:127.0.0.1'' \<mapsto> (1, Some 60000)]\<rparr>)
                0 input ''127.0.0.1'') of
      Inr paste \<Rightarrow> 201
    | Inl e \<Rightarrow> error_status e)"
proof -
  obtain r st2 where c:
    "createPaste example_deps sf
       (empty_state\<lparr>counters := [''rate_limit:127.0.0.1'' \<mapsto> (1, Some 60000)]\<rparr>)
       0 input ''127.0.0.1'' = (r, st2)"
    by (cases "createPaste example_deps sf
       (empty_state\<lparr>counters := [''rate_limit:127.0.0.1'' \<mapsto> (1, Some 60000)]\<rparr>)
       0 input ''127.0.0.1''")
  show ?thesis
    by (cases r) (simp_all add: POST_def Let_def client_ip_def limiter_allows_first c)
qed

text \<open>
  The stand-alone handler on the first request of client 127.0.0.1 at time 0: the oversized
  body, and the example paste up to the cache write.
\<close>

lemma standalone_oversized:
  "POST_standalone example_deps no_limiter_faults sf empty_state 0
      \<lparr>rq_forwardedFor = None, rq_realIP = None, rq_body = Some ascii_102401_request\<rparr> =
   (\<lparr>ps_status = 413, ps_error = Some ''Content too large. Maximum size is 100KB.'',
     ps_slug = None\<rparr>,
    empty_state\<lparr>counters := [''rate_limit:127.0.0.1'' \<mapsto> (1, Some 60000)]\<rparr>)"
proof -
  have "\<not> is_js_whitespace (0x61 :: 16 word)"
    by (simp add: is_js_whitespace_def)
  then have "trim (replicate 102401 (0x61 :: 16 word)) = replicate 102401 0x61"
    by (rule trim_replicate)
  moreover have "utf8_length (replicate 102401 (0x61 :: 16 word)) = 102401"
    by (simp add: utf8_length_replicate_ascii)
  ultimately show ?thesis
    by (simp add: POST_standalone_def Let_def client_ip_def limiter_allows_first
          ascii_102401_request_def CONTENT_SIZE_LIMIT_def)
qed

lemma standalone_python:
  assumes "sf_incr sf = None" and "sf_insert sf = None"
  shows "POST_standalone example_deps no_limiter_faults sf empty_state 0
      \<lparr>rq_forwardedFor = None, rq_realIP = None, rq_body = Some python_request\<rparr> =
   (case redis_set (sf_set sf) state_standalone_inserted 0 ''paste:xxxxxx'' python_cached 3600 of
      Inl e \<Rightarrow> (\<lparr>ps_status = 500,
                  ps_error = Some ''An unexpected error occurred. Please try again.'',
                  ps_slug = None\<rparr>, state_standalone_inserted)
    | Inr st4 \<Rightarrow> (\<lparr>ps_status = 201, ps_error = None, ps_slug = Some ''xxxxxx''\<rparr>, st4))"
proof -
  let ?st1 = "empty_state\<lparr>counters := [''rate_limit:127.0.0.1'' \<mapsto> (1, Some 60000)]\<rparr>"
  let ?st2 = "empty_state\<lparr>counters := [''rate_limit:127.0.0.1'' \<mapsto> (1, Some 60000),
                                          ''paste_counter'' \<mapsto> (1, None)]\<rparr>"
  have incr: "redis_incr None ?st1 0 ''paste_counter'' = Inr (1, ?st2)"
    by (simp add: redis_incr_ok count_after_incr_def live_def empty_state_def)
  have ins: "supabase_insert None ?st2 0
               \<lparr>i_slug = ''xxxxxx'', i_content = [0x68, 0x69], i_language = ''python'',
                i_user_id = None, i_ip_hash = ''127.0.0.1'', i_expires_at = Some 86400000,
                i_metadata = None\<rparr> =
             Inr (python_row\<lparr>r_ip_hash := Some ''127.0.0.1''\<rparr>, state_standalone_inserted)"
    by (simp add: supabase_insert_def empty_state_def python_row_def
          state_standalone_inserted_def Let_def)
  show ?thesis
    using assms
    by (simp add: POST_standalone_def Let_def client_ip_def limiter_allows_first
          python_request_def trim_hi CONTENT_SIZE_LIMIT_def incr generateSlug_def first_slug
          calculateExpiration_def hashIP_def ins cache_key_def python_row_def python_cached_def
          split: sum.splits)
qed

section \<open>Expired pastes and the cache\<close>

text \<open>
  With a Redis client that returns parsed objects, \<^verbatim>\<open>getCachedPaste\<close> never returns an entry,
  every read reaches the repository, and the repository's expiry check decides: a paste that
  \<^verbatim>\<open>getPaste\<close> returns from the store has not expired.
\<close>

lemma parsing_client_not_expired:
  assumes "get_deserializes d"
    and "getPaste d sf st now slug = (Inr (Some paste), st')"
    and "p_expiresAt paste = Some t"
  shows "now \<le> t"
proof -
  from assms(1) have "store_read d sf st now slug"
    by (simp add: store_read_def parsing_client_misses)
  from this assms(2,3) show ?thesis by (rule store_read_not_expired)
qed

text \<open>
  With a Redis client that returns the stored text, a live cache entry is returned as it is,
  whatever expiry it records and whatever the table holds.
\<close>

lemma cache_hit_ignores_expiry:
  assumes "\<not> get_deserializes d" and "sf_get sf = None"
    and "live (cache st) now (cache_key slug) = Some (cached, e)"
  shows "getPaste d sf st now slug = (Inr (Some (cachedPasteToDomain slug cached)), st)"
proof -
  from assms have "getCachedPaste d (sf_get sf) st now slug = Some cached"
    by (simp add: getCachedPaste_def redis_get_def)
  then show ?thesis by (rule getPaste_cache_hit)
qed

text \<open>
  Claim C1: a paste whose \<open>expiresAt\<close> is in the past is never returned by \<^verbatim>\<open>getPaste\<close>, also
  when a cache entry for it still exists. The repository's \<^verbatim>\<open>getBySlug\<close> makes that check,
  but \<^verbatim>\<open>getPaste\<close> returns what \<^verbatim>\<open>getCachedPaste\<close> gives it without looking at the cached
  \<^verbatim>\<open>expires_at\<close>, and every cache write has a TTL of one hour whatever time the paste has left.
  \<^verbatim>\<open>getCachedPaste\<close> gives an entry when \<^verbatim>\<open>redis.get\<close> returns a string, the case its
  \<^verbatim>\<open>JSON.parse\<close> is written for. The theorem runs the code with such a client: a paste is
  created at time 0 with a one-day expiry (86,400,000); a read at 86,000,000 misses the cache,
  finds the row, which has not expired, and caches it for another hour; a read at 86,400,001
  is answered from that entry, with status 200, while the repository asked at the same moment
  returns nothing. With a client that returns parsed objects the same read reaches the
  repository and returns nothing.
\<close>

theorem expired_paste_served_from_cache:
  "get_deserializes text_client_deps = False
   \<and> createPaste text_client_deps no_service_faults empty_state 0 (Some python_body) ''10.0.0.1'' =
       (Inr python_paste, state_created)
   \<and> p_expiresAt python_paste = Some 86400000
   \<and> getPaste text_client_deps no_service_faults state_created 86000000 ''xxxxxx'' =
       (Inr (Some python_paste), state_read)
   \<and> getPaste text_client_deps no_service_faults state_read 86400001 ''xxxxxx'' =
       (Inr (Some python_from_cache), state_read)
   \<and> p_expiresAt python_from_cache = Some 86400000
   \<and> gs_status (fst (GET text_client_deps no_service_faults state_read 86400001 ''xxxxxx'')) = 200
   \<and> getBySlug None state_read 86400001 ''xxxxxx'' = Inr None
   \<and> getPaste example_deps no_service_faults state_read 86400001 ''xxxxxx'' =
       (Inr None, state_read)"
proof -
  have second: "getPaste text_client_deps no_service_faults state_created 86000000 ''xxxxxx'' =
       (Inr (Some python_paste), state_read)"
    using read_from_store [of text_client_deps 0 86000000 no_service_faults 0 None]
    by (simp add: states_viewed no_service_faults_def python_paste_def)
  have third: "getPaste text_client_deps no_service_faults state_read 86400001 ''xxxxxx'' =
       (Inr (Some python_from_cache), state_read)"
    using read_from_cache [of 86400001 86000000 1 "Some 86000000"]
    by (simp add: states_viewed)
  have status: "gs_status (fst (GET text_client_deps no_service_faults state_read 86400001 ''xxxxxx'')) = 200"
    by (simp add: GET_def third)
  have store: "getBySlug None state_read 86400001 ''xxxxxx'' = Inr None"
    by (simp add: getBySlug_def dao_findBySlug_def state_read_def python_row_def)
  have parsed: "getPaste example_deps no_service_faults state_read 86400001 ''xxxxxx'' =
       (Inr None, state_read)"
    using read_expired_from_store [of example_deps 86000000 86400001 1 "Some 86000000"]
    by (simp add: states_viewed)
  show ?thesis
    by (simp add: createPaste_any_client create_python second third status store parsed)
       (simp add: python_paste_def python_from_cache_def)
qed

section \<open>The view count\<close>





section \<open>Slugs\<close>

text \<open>
  Claim C3, on the model of the Hashids package. When the encoder and the decoder of the
  library are the modelled ones, over any permutation of the alphabet: for every non-negative
  integer \<open>n\<close>, \<^verbatim>\<open>decodeSlug(generateSlug(n))\<close> is \<open>n\<close>; two different non-negative integers
  get different slugs; and every slug has at least six characters, all of them from the
  alphabet of letters and digits.
\<close>

theorem slug_round_trip:
  assumes "hashids_encode d = hashids_model_encode perm"
    and "hashids_decode d = hashids_model_decode perm"
    and "distinct perm"
    and "set perm = set ALPHABET"
    and "0 \<le> n" and "0 \<le> n1" and "0 \<le> n2" and "n1 \<noteq> n2"
  shows "decodeSlug d (generateSlug d n) = n
       \<and> generateSlug d n1 \<noteq> generateSlug d n2
       \<and> MIN_LENGTH \<le> length (generateSlug d n)
       \<and> set (generateSlug d n) \<subseteq> set ALPHABET"
proof -
  have rt: "\<And>k. 0 \<le> k \<Longrightarrow> hashids_decode d (hashids_encode d k) = [k]"
    using assms(1-4) by (simp add: hashids_model_decode_encode)
  have "decodeSlug d (generateSlug d n) = n"
    using rt [OF assms(5)] by (simp add: decodeSlug_def generateSlug_def)
  moreover have "generateSlug d n1 \<noteq> generateSlug d n2"
  proof
    assume "generateSlug d n1 = generateSlug d n2"
    then have same: "hashids_encode d n1 = hashids_encode d n2"
      by (simp add: generateSlug_def)
    have "[n1] = hashids_decode d (hashids_encode d n1)"
      by (rule rt [OF assms(6), symmetric])
    also have "\<dots> = hashids_decode d (hashids_encode d n2)"
      by (simp only: same)
    also have "\<dots> = [n2]"
      by (rule rt [OF assms(7)])
    finally have "n1 = n2" by simp
    with assms(8) show False by simp
  qed
  moreover have "MIN_LENGTH \<le> length (generateSlug d n)"
    using assms(1,5) by (simp add: generateSlug_def hashids_model_encode_length)
  moreover have "set (generateSlug d n) \<subseteq> set ALPHABET"
    using assms(1,3,4,5) by (simp add: generateSlug_def hashids_model_encode_chars)
  ultimately show ?thesis by simp
qed

theorem slug_round_trip_witness:
  "decodeSlug slug_example_deps (generateSlug slug_example_deps 100001) = 100001
   \<and> generateSlug slug_example_deps 1 \<noteq> generateSlug slug_example_deps 2
   \<and> MIN_LENGTH \<le> length (generateSlug slug_example_deps 100001)
   \<and> set (generateSlug slug_example_deps 100001) \<subseteq> set ALPHABET"
  using slug_round_trip [of slug_example_deps "rotate 7 ALPHABET" 100001 1 2]
  by (simp add: slug_example_deps_def ALPHABET_facts)

section \<open>The size of the content\<close>

text \<open>
  The storage check of the service is on the UTF-8 bytes of the trimmed content, and its
  error is answered with status 413: 40,000 times U+4E2D is 120,000 bytes in 40,000 code
  units, passes the schema and is rejected as too large.
\<close>

lemma multibyte_oversized_is_413:
  "utf8_length (replicate 40000 (0x4E2D :: 16 word)) = 120000
   \<and> createPaste example_deps no_service_faults empty_state 0 (Some cjk_40000) ''10.0.0.1''
        = (Inl (Error ''Content too large. Object storage not yet implemented.''), empty_state)
   \<and> error_status (Error ''Content too large. Object storage not yet implemented.'') = 413"
proof -
  have bytes: "utf8_length (replicate 40000 (0x4E2D :: 16 word)) = 120000"
    by (simp add: utf8_length_replicate_three is_high_surrogate_def)
  then show ?thesis
    by (simp add: createPaste_def validate_cjk validateExpirationRules_def
          shouldUseObjectStorage_def CONTENT_SIZE_LIMIT_def error_status_def)
qed

text \<open>
  Content of more than 102,400 code units has more than 102,400 bytes, and the schema rejects
  it before the storage check is reached: the create throws a \<^verbatim>\<open>ZodError\<close>, which the handler
  answers with status 400, and the state is unchanged.
\<close>

lemma long_content_is_validation_error:
  assumes "rb_content b = JStr s" and "CONTENT_SIZE_LIMIT < length s"
  shows "CONTENT_SIZE_LIMIT < utf8_length s
       \<and> (\<exists>iss. createPaste d sf st now (Some b) ip = (Inl (ZodError iss), st)
                \<and> error_status (ZodError iss) = 400)"
proof -
  have "length s \<le> utf8_length s" by (rule length_le_utf8_length)
  with assms(2) have bytes: "CONTENT_SIZE_LIMIT < utf8_length s" by simp
  from assms obtain iss where
    "validateCreatePasteInput d (Some b) = Inl (ZodError ((''content'', TooBig) # iss))"
    using validate_too_big by blast
  then have "createPaste d sf st now (Some b) ip = (Inl (ZodError ((''content'', TooBig) # iss)), st)
      \<and> error_status (ZodError ((''content'', TooBig) # iss)) = 400"
    by (simp add: createPaste_def error_status_def)
  with bytes show ?thesis by blast
qed

text \<open>
  Claim C4: content of more than 102,400 bytes is answered with status 413. The handler that
  delegates to the service maps the too-large error to 413, but the schema bounds the number
  of code units of the content by the same 102,400 and is checked first: for 102,401 letters
  (102,401 bytes) \<^verbatim>\<open>createPaste\<close> throws a \<^verbatim>\<open>ZodError\<close> and the handler answers 400. The
  stand-alone handler answers 413 for the same content.
\<close>

theorem oversized_ascii_is_validation_error:
  "rb_content ascii_102401 = JStr (replicate 102401 0x61)
   \<and> utf8_length (replicate 102401 (0x61 :: 16 word)) = 102401
   \<and> createPaste example_deps no_service_faults empty_state 0 (Some ascii_102401) ''10.0.0.1'' =
       (Inl (ZodError [(''content'', TooBig)]), empty_state)
   \<and> ps_status (fst (POST example_deps no_limiter_faults no_service_faults empty_state 0
        \<lparr>rq_forwardedFor = None, rq_realIP = None, rq_body = Some (Some ascii_102401)\<rparr>)) = 400
   \<and> cr_content ascii_102401_request = replicate 102401 0x61
   \<and> ps_status (fst (POST_standalone example_deps no_limiter_faults no_service_faults empty_state 0
        \<lparr>rq_forwardedFor = None, rq_realIP = None, rq_body = Some ascii_102401_request\<rparr>)) = 413"
  by (simp add: utf8_length_replicate_ascii createPaste_invalid validate_ascii_102401
        POST_first_request error_status_def standalone_oversized)
     (simp add: ascii_102401_def ascii_102401_request_def)

section \<open>The expiration rule\<close>

text \<open>
  Claim C5 says that an anonymous request with selector \<^verbatim>\<open>never\<close> fails with the policy
  violation whatever the content. The schema is checked before the rule: with empty content
  the create throws a \<^verbatim>\<open>ZodError\<close>, and the handler answers 400, not 403.
\<close>

theorem anonymous_never_empty_content:
  "rb_userId empty_never_body = JUndefined
   \<and> rb_expiresIn empty_never_body = JStr ''never''
   \<and> createPaste example_deps no_service_faults empty_state 0 (Some empty_never_body) ''10.0.0.1'' =
       (Inl (ZodError [(''content'', TooSmall)]), empty_state)
   \<and> ps_status (fst (POST example_deps no_limiter_faults no_service_faults empty_state 0
        \<lparr>rq_forwardedFor = None, rq_realIP = None, rq_body = Some (Some empty_never_body)\<rparr>)) = 400"
  by (simp add: createPaste_invalid validate_empty_never POST_first_request error_status_def)
     (simp add: empty_never_body_def)

text \<open>
  Claim C5, amended. For every request that passes the schema, has no user id and has
  selector \<^verbatim>\<open>never\<close>, \<^verbatim>\<open>createPaste\<close> throws the error of the expiration rule, which is not a
  \<^verbatim>\<open>ZodError\<close> and which the handler answers with status 403; the state is unchanged. The
  byte size of the content plays no part: the rule is checked before the storage check.
\<close>

theorem anonymous_never_rejected_after_validation:
  assumes "validateCreatePasteInput d input = Inr v"
    and "vi_userId v = None"
    and "vi_expiresIn v = ''never''"
  shows "createPaste d sf st now input ip =
           (Inl (Error ''Anonymous users must set an expiration time''), st)
       \<and> error_status (Error ''Anonymous users must set an expiration time'') = 403"
  using assms by (simp add: createPaste_def validateExpirationRules_def error_status_def)

theorem anonymous_never_rejected_after_validation_witness:
  "validateCreatePasteInput example_deps (Some never_body) =
     Inr \<lparr>vi_content = [0x68, 0x69], vi_language = ''text'', vi_expiresIn = ''never'',
          vi_userId = None\<rparr>
   \<and> createPaste example_deps no_service_faults empty_state 0 (Some never_body) ''10.0.0.1'' =
           (Inl (Error ''Anonymous users must set an expiration time''), empty_state)
   \<and> error_status (Error ''Anonymous users must set an expiration time'') = 403"
  using anonymous_never_rejected_after_validation [of example_deps "Some never_body"
      "\<lparr>vi_content = [0x68, 0x69], vi_language = ''text'', vi_expiresIn = ''never'',
        vi_userId = None\<rparr>"
      no_service_faults empty_state 0 "''10.0.0.1''"]
  by (simp add: validate_never)

section \<open>The rate limiter fails open\<close>

text \<open>
  Claim C6. Whenever one of the Redis calls that \<^verbatim>\<open>rateLimit\<close> makes throws, the call returns
  the fail-open result: the request is allowed, \<open>remaining\<close> is the limit that was passed in,
  and \<open>reset\<close> is one window from now. The function returns a result in every case; no error
  reaches the caller.
\<close>

theorem rateLimit_fails_open:
  assumes "backend_raises rf st now (rate_limit_key d ip)"
  shows "fst (rateLimit d rf st now ip limit window) =
           \<lparr>rl_success = True, rl_limit = limit, rl_remaining = limit,
            rl_reset = now + window * 1000\<rparr>"
proof (cases "incr_err rf")
  case (Some msg)
  then show ?thesis by (simp add: rateLimit_def Let_def)
next
  case incr_ok: None
  show ?thesis
  proof (cases "ttl_err rf")
    case (Some msg)
    then show ?thesis
      by (simp add: rateLimit_def Let_def incr_ok redis_incr_ok redis_ttl_def redis_expire_def
            split: option.splits sum.splits)
  next
    case None
    with assms incr_ok obtain msg where
      one: "count_after_incr st now (rate_limit_key d ip) = 1" and ex: "expire_err rf = Some msg"
      by (auto simp: backend_raises_def)
    show ?thesis
      by (simp add: rateLimit_def Let_def incr_ok redis_incr_ok one ex redis_expire_def)
  qed
qed

theorem rateLimit_fails_open_witness:
  "backend_raises \<lparr>incr_err = Some ''ECONNREFUSED'', expire_err = None, ttl_err = None\<rparr>
     empty_state 1000 (rate_limit_key example_deps ''10.0.0.1'')
   \<and> fst (rateLimit example_deps
            \<lparr>incr_err = Some ''ECONNREFUSED'', expire_err = None, ttl_err = None\<rparr>
            empty_state 1000 ''10.0.0.1'' 5 60)
       = \<lparr>rl_success = True, rl_limit = 5, rl_remaining = 5, rl_reset = 61000\<rparr>"
proof -
  have h: "backend_raises \<lparr>incr_err = Some ''ECONNREFUSED'', expire_err = None, ttl_err = None\<rparr>
             empty_state 1000 (rate_limit_key example_deps ''10.0.0.1'')"
    by (simp add: backend_raises_def)
  show ?thesis using h rateLimit_fails_open [OF h, of 5 60] by simp
qed

section \<open>The rate limiter counts in fixed windows\<close>

text \<open>
  Claim C7. When no Redis call fails, \<^verbatim>\<open>rateLimit\<close> counts under the key of the client, the
  string \<^verbatim>\<open>rate_limit:\<close> followed by the SHA-256 of the address: it leaves the count after the
  increment, \<open>c\<close>, under that key; the request is allowed exactly when \<open>c \<le> limit\<close>, and
  \<open>remaining\<close> is \<open>max 0 (limit - c)\<close>. The count is 1 when the key is absent or its window has
  ended, and one more than the count of the running window otherwise. The request that
  brings the count to 1 sets the expiry one window ahead; every other request keeps the
  expiry the key had. No other key changes, so the counter of a client whose address has
  another hash is left as it is, and nothing else of the state changes.
\<close>

theorem rateLimit_fixed_window:
  assumes "rateLimit d no_limiter_faults st now ip limit window = (r, st')"
    and "key = ''rate_limit:'' @ sha256_hex d ip"
    and "c = count_after_incr st now key"
  shows "rl_success r = (c \<le> limit)
       \<and> rl_remaining r = max 0 (limit - c)
       \<and> rl_limit r = limit
       \<and> c = (case counters st key of
                None \<Rightarrow> 1
              | Some (n, None) \<Rightarrow> n + 1
              | Some (n, Some t) \<Rightarrow> if t \<le> now then 1 else n + 1)
       \<and> counters st' key =
           Some (c, if c = 1 then Some (now + window * 1000)
                    else (case live (counters st) now key of
                            None \<Rightarrow> None | Some (n, e) \<Rightarrow> e))
       \<and> (\<forall>k. k \<noteq> key \<longrightarrow> counters st' k = counters st k)
       \<and> (\<forall>ip'. sha256_hex d ip' \<noteq> sha256_hex d ip \<longrightarrow>
             counters st' (''rate_limit:'' @ sha256_hex d ip') =
             counters st (''rate_limit:'' @ sha256_hex d ip'))
       \<and> cache st' = cache st \<and> pastes st' = pastes st \<and> next_id st' = next_id st"
proof -
  have key: "rate_limit_key d ip = key"
    using assms(2) by (simp add: rate_limit_key_def)
  have count: "c = (case counters st key of
                None \<Rightarrow> 1
              | Some (n, None) \<Rightarrow> n + 1
              | Some (n, Some t) \<Rightarrow> if t \<le> now then 1 else n + 1)"
    using assms(3) by (simp add: count_after_incr_def live_def split: option.splits)
  have main: "rl_success r = (c \<le> limit)
       \<and> rl_remaining r = max 0 (limit - c)
       \<and> rl_limit r = limit
       \<and> counters st' key =
           Some (c, if c = 1 then Some (now + window * 1000)
                    else (case live (counters st) now key of
                            None \<Rightarrow> None | Some (n, e) \<Rightarrow> e))
       \<and> (\<forall>k. k \<noteq> key \<longrightarrow> counters st' k = counters st k)
       \<and> cache st' = cache st \<and> pastes st' = pastes st \<and> next_id st' = next_id st"
  proof (cases "c = 1")
    case True
    obtain ttl where
      "redis_ttl None
         (st\<lparr>counters := (counters st)(key \<mapsto> (c, Some (now + window * 1000)))\<rparr>)
         now key = Inr ttl"
      using redis_ttl_after_expire by blast
    with True assms(1,3) show ?thesis
      by (auto simp: rateLimit_def key Let_def no_limiter_faults_def redis_incr_ok
            redis_expire_after_incr)
  next
    case False
    obtain ttl where
      "redis_ttl None
         (st\<lparr>counters := (counters st)(key \<mapsto> (c,
                case live (counters st) now key of
                  None \<Rightarrow> None | Some (n, e) \<Rightarrow> e))\<rparr>)
         now key = Inr ttl"
      using redis_ttl_after_incr by blast
    with False assms(1,3) show ?thesis
      by (auto simp: rateLimit_def key Let_def no_limiter_faults_def redis_incr_ok)
  qed
  then have others: "\<forall>k. k \<noteq> key \<longrightarrow> counters st' k = counters st k" by blast
  have "\<forall>ip'. sha256_hex d ip' \<noteq> sha256_hex d ip \<longrightarrow>
             counters st' (''rate_limit:'' @ sha256_hex d ip') =
             counters st (''rate_limit:'' @ sha256_hex d ip')"
    using others assms(2) by simp
  with main count show ?thesis by blast
qed

text \<open>
  The sixth request of client 10.0.0.1 in its window, at time 2000 with limit 5, is denied
  and keeps the window; the counter of client 10.0.0.2 is not touched.
\<close>

theorem rateLimit_fixed_window_witness:
  "count_after_incr state_two_clients 2000 (''rate_limit:'' @ sha256_hex example_deps ''10.0.0.1'') = 6
   \<and> \<not> rl_success (fst (rateLimit example_deps no_limiter_faults state_two_clients 2000 ''10.0.0.1'' 5 60))
   \<and> rl_remaining (fst (rateLimit example_deps no_limiter_faults state_two_clients 2000 ''10.0.0.1'' 5 60)) = 0
   \<and> counters (snd (rateLimit example_deps no_limiter_faults state_two_clients 2000 ''10.0.0.1'' 5 60))
        ''rate_limit:10.0.0.1'' = Some (6, Some 61000)
   \<and> counters (snd (rateLimit example_deps no_limiter_faults state_two_clients 2000 ''10.0.0.1'' 5 60))
        ''rate_limit:10.0.0.2'' = Some (2, Some 30000)"
proof -
  have c: "count_after_incr state_two_clients 2000
             (''rate_limit:'' @ sha256_hex example_deps ''10.0.0.1'') = 6"
    by (simp add: count_after_incr_def live_def state_two_clients_def)
  have other: "sha256_hex example_deps ''10.0.0.2'' \<noteq> sha256_hex example_deps ''10.0.0.1''"
    by simp
  from c other
    rateLimit_fixed_window [of example_deps state_two_clients 2000 "''10.0.0.1''" 5 60
      "fst (rateLimit example_deps no_limiter_faults state_two_clients 2000 ''10.0.0.1'' 5 60)"
      "snd (rateLimit example_deps no_limiter_faults state_two_clients 2000 ''10.0.0.1'' 5 60)"
      "''rate_limit:'' @ sha256_hex example_deps ''10.0.0.1''" 6]
  show ?thesis
    by (simp add: live_def state_two_clients_def)
qed

section \<open>A failing cache write\<close>

text \<open>
  In the service the cache write is guarded: when a request passes the schema, the
  expiration rule and the storage check, the counter is incremented and the insert succeeds,
  \<^verbatim>\<open>createPaste\<close> returns the created paste also when the cache write that follows throws; the
  state is the one the insert left, with no cache entry written.
\<close>

lemma createPaste_survives_cache_failure:
  assumes "validateCreatePasteInput d input = Inr v"
    and "validateExpirationRules (vi_userId v) (vi_expiresIn v) = Inr ()"
    and "\<not> shouldUseObjectStorage (vi_content v)"
    and "redis_incr (sf_incr sf) st now ''paste_counter'' = Inr (counter, st1)"
    and "repository_create (sf_insert sf) st1 now
           \<lparr>i_slug = generateSlug d counter, i_content = vi_content v,
            i_language = vi_language v, i_user_id = vi_userId v, i_ip_hash = hashIP d ip,
            i_expires_at = calculateExpiration now (vi_expiresIn v), i_metadata = None\<rparr>
         = Inr (paste, st2)"
    and "sf_set sf = Some msg"
  shows "createPaste d sf st now input ip = (Inr paste, st2)"
  using assms by (simp add: createPaste_def Let_def cachePaste_def redis_set_def)

lemma service_create_with_cache_down:
  "createPaste example_deps (no_service_faults\<lparr>sf_set := Some ''ECONNRESET''\<rparr>) empty_state 0
      (Some python_body) ''10.0.0.1'' = (Inr python_paste, state_uncached)"
proof -
  have h4: "redis_incr (sf_incr (no_service_faults\<lparr>sf_set := Some ''ECONNRESET''\<rparr>)) empty_state 0
              ''paste_counter'' = Inr (1, state_counted)"
    by (simp add: no_service_faults_def incr_on_empty)
  have h5: "repository_create (sf_insert (no_service_faults\<lparr>sf_set := Some ''ECONNRESET''\<rparr>))
              state_counted 0
              \<lparr>i_slug = generateSlug example_deps 1, i_content = vi_content python_input,
               i_language = vi_language python_input, i_user_id = vi_userId python_input,
               i_ip_hash = hashIP example_deps ''10.0.0.1'',
               i_expires_at = calculateExpiration 0 (vi_expiresIn python_input),
               i_metadata = None\<rparr>
            = Inr (python_paste, state_uncached)"
    using insert_python by (simp add: no_service_faults_def)
  have h6: "sf_set (no_service_faults\<lparr>sf_set := Some ''ECONNRESET''\<rparr>) = Some ''ECONNRESET''"
    by simp
  show ?thesis
    by (rule createPaste_survives_cache_failure
          [OF validate_python python_passes_rules(1) python_passes_rules(2) h4 h5 h6])
qed

text \<open>
  Claim C8: a cache-write failure never turns a successful create into an error. The
  stand-alone handler awaits \<^verbatim>\<open>redis.set\<close> inside its \<^verbatim>\<open>try\<close> with no guard of its own. The
  theorem runs it on the first request of a client at time 0, with a valid body and a Redis
  whose \<^verbatim>\<open>set\<close> throws: the row is inserted, and the handler answers 500 with no slug. The same
  request is answered 201 when \<^verbatim>\<open>set\<close> works, and the service returns the paste in both cases.
\<close>

theorem standalone_create_fails_on_cache_error:
  "POST_standalone example_deps no_limiter_faults (no_service_faults\<lparr>sf_set := Some ''ECONNRESET''\<rparr>)
      empty_state 0 \<lparr>rq_forwardedFor = None, rq_realIP = None, rq_body = Some python_request\<rparr> =
     (\<lparr>ps_status = 500, ps_error = Some ''An unexpected error occurred. Please try again.'',
       ps_slug = None\<rparr>, state_standalone_inserted)
   \<and> pastes empty_state = []
   \<and> map r_slug (pastes state_standalone_inserted) = [''xxxxxx'']
   \<and> cache state_standalone_inserted ''paste:xxxxxx'' = None
   \<and> fst (POST_standalone example_deps no_limiter_faults no_service_faults
      empty_state 0 \<lparr>rq_forwardedFor = None, rq_realIP = None, rq_body = Some python_request\<rparr>) =
     \<lparr>ps_status = 201, ps_error = None, ps_slug = Some ''xxxxxx''\<rparr>
   \<and> createPaste example_deps (no_service_faults\<lparr>sf_set := Some ''ECONNRESET''\<rparr>) empty_state 0
      (Some python_body) ''10.0.0.1'' = (Inr python_paste, state_uncached)"
proof -
  have down: "POST_standalone example_deps no_limiter_faults
      (no_service_faults\<lparr>sf_set := Some ''ECONNRESET''\<rparr>)
      empty_state 0 \<lparr>rq_forwardedFor = None, rq_realIP = None, rq_body = Some python_request\<rparr> =
     (\<lparr>ps_status = 500, ps_error = Some ''An unexpected error occurred. Please try again.'',
       ps_slug = None\<rparr>, state_standalone_inserted)"
    by (simp add: standalone_python no_service_faults_def redis_set_def)
  have up: "fst (POST_standalone example_deps no_limiter_faults no_service_faults
      empty_state 0 \<lparr>rq_forwardedFor = None, rq_realIP = None, rq_body = Some python_request\<rparr>) =
     \<lparr>ps_status = 201, ps_error = None, ps_slug = Some ''xxxxxx''\<rparr>"
    by (simp add: standalone_python no_service_faults_def redis_set_def)
  show ?thesis
    by (simp add: down up service_create_with_cache_down)
       (simp add: empty_state_def state_standalone_inserted_def python_row_def)
qed

section \<open>Rejections leave the state alone\<close>

text \<open>
  Claim C9. When the schema rejects the input, or the schema accepts it and the expiration
  rule rejects it, \<^verbatim>\<open>createPaste\<close> throws that error and returns the state it was given: the
  ID counter is not incremented, no row is inserted and no cache entry is written.
\<close>

theorem createPaste_rejects_before_side_effects:
  assumes "validateCreatePasteInput d input = Inl e
         \<or> (validateCreatePasteInput d input = Inr v
            \<and> validateExpirationRules (vi_userId v) (vi_expiresIn v) = Inl e)"
  shows "createPaste d sf st now input ip = (Inl e, st)"
  using assms createPaste_invalid createPaste_against_rules by blast

theorem createPaste_rejects_before_side_effects_witness:
  "validateCreatePasteInput example_deps (Some bad_language_body) =
     Inl (ZodError [(''language'', InvalidEnumValue)])
   \<and> createPaste example_deps no_service_faults state_created 5000 (Some bad_language_body)
        ''10.0.0.1'' = (Inl (ZodError [(''language'', InvalidEnumValue)]), state_created)"
  using createPaste_rejects_before_side_effects [of example_deps "Some bad_language_body"
      "ZodError [(''language'', InvalidEnumValue)]" python_input no_service_faults state_created
      5000 "''10.0.0.1''"]
  by (simp add: validate_bad_language)

section \<open>What a cache hit returns\<close>

text \<open>
  Claim C10. When \<^verbatim>\<open>getCachedPaste\<close> returns an entry for the slug, which it does only for a
  Redis client that returns the stored text, \<^verbatim>\<open>getPaste\<close> returns a paste built from that
  entry with fixed values in the fields that are not cached: id 0, view count 0, and no user
  id, last-viewed time or metadata, whatever the row in the table holds; the state is
  unchanged. The response of \<^verbatim>\<open>GET /api/pastes/[slug]\<close> then has status 200 and reports view
  count 0.
\<close>

theorem getPaste_cache_hit_placeholders:
  assumes "getCachedPaste d (sf_get sf) st now slug = Some cached"
  shows "getPaste d sf st now slug =
           (Inr (Some \<lparr>p_id = 0, p_slug = slug, p_content = c_content cached,
                       p_language = c_language cached, p_userId = None,
                       p_createdAt = c_created_at cached, p_expiresAt = c_expires_at cached,
                       p_viewCount = 0, p_lastViewedAt = Null, p_metadata = Null\<rparr>), st)
       \<and> (slug \<noteq> [] \<longrightarrow>
            gs_status (fst (GET d sf st now slug)) = 200
          \<and> map_option d_viewCount (gs_data (fst (GET d sf st now slug))) = Some 0
          \<and> map_option d_lastViewedAt (gs_data (fst (GET d sf st now slug))) = Some None
          \<and> map_option d_metadata (gs_data (fst (GET d sf st now slug))) = Some Null)
       \<and> \<not> get_deserializes d"
  using assms cache_hit_needs_text [OF assms]
  by (simp add: getPaste_cache_hit GET_def cachedPasteToDomain_def)

theorem getPaste_cache_hit_placeholders_witness:
  "get_deserializes text_client_deps = False
   \<and> getCachedPaste text_client_deps (sf_get no_service_faults) state_read 87000000 ''xxxxxx'' =
       Some python_cached
   \<and> stored_viewCount state_read ''xxxxxx'' = Some 1
   \<and> fst (getPaste text_client_deps no_service_faults state_read 87000000 ''xxxxxx'') =
       Inr (Some python_from_cache)
   \<and> map_option d_viewCount
        (gs_data (fst (GET text_client_deps no_service_faults state_read 87000000 ''xxxxxx'')))
       = Some 0"
proof -
  have h: "getCachedPaste text_client_deps (sf_get no_service_faults) state_read 87000000
             ''xxxxxx'' = Some python_cached"
    by (simp add: getCachedPaste_def redis_get_def live_def no_service_faults_def state_read_def
          cache_key_def)
  from h getPaste_cache_hit_placeholders [OF h] show ?thesis
    by (simp add: stored_after_read python_cached_def python_from_cache_def)
qed

end
